theory Spec2Isabelle
  imports Main
begin

section \<open>Python values shared by the modules\<close>

text \<open>
  Strings are lists of code points below 256 (\<^typ>\<open>string\<close>); \<open>len\<close> is \<^const>\<open>length\<close>.
  Exceptions are values: a call that may raise returns \<open>exn + 'a\<close>, with \<open>Inl\<close> the
  exception. \<open>UnknownHashError\<close> (passlib) is a subclass of Python's \<open>ValueError\<close>, and
  every exception of jose's \<open>jwt.decode\<close> that derives from \<open>JWTError\<close>
  (\<open>ExpiredSignatureError\<close>, \<open>JWTClaimsError\<close>) is the one value \<open>JWTError\<close>, since the
  code only ever catches the base class.
\<close>

datatype exn =
    ValueError string
  | UnknownHashError
  | JWTError
  | JWSError
  | TypeError
  | MultipleResultsFound
  | HTTPException nat string

text \<open>\<open>isinstance(e, ValueError)\<close>, as an \<open>except ValueError\<close> clause tests it.\<close>

fun is_ValueError :: "exn \<Rightarrow> bool" where
  "is_ValueError (ValueError _) = True"
| "is_ValueError UnknownHashError = True"
| "is_ValueError _ = False"

text \<open>\<open>str(e)\<close> of an exception caught as \<open>ValueError\<close>.\<close>

fun str_exn :: "exn \<Rightarrow> string" where
  "str_exn (ValueError m) = m"
| "str_exn UnknownHashError = ''hash could not be identified''"
| "str_exn _ = []"

subsection \<open>\<open>str(int)\<close>\<close>

definition digit_char :: "nat \<Rightarrow> char" where
  "digit_char d = ''0123456789'' ! d"

fun str_nat :: "nat \<Rightarrow> string" where
  "str_nat n = (if n < 10 then [digit_char n] else str_nat (n div 10) @ [digit_char (n mod 10)])"

declare str_nat.simps [simp del]

definition str_int :: "int \<Rightarrow> string" where
  "str_int i = (if i < 0 then CHR ''-'' # str_nat (nat (- i)) else str_nat (nat i))"

subsection \<open>\<open>str.strip()\<close> and \<open>str.lower()\<close>\<close>

text \<open>
  The code points below 256 for which \<open>str.isspace()\<close> holds: tab, line feed, vertical tab,
  form feed, carriage return, the separators 28 to 31, space, NEL (133) and the no-break
  space (160).
\<close>

definition is_space :: "char \<Rightarrow> bool" where
  "is_space c = ((of_char c :: nat) \<in> {9, 10, 11, 12, 13, 28, 29, 30, 31, 32, 133, 160})"

definition strip :: "string \<Rightarrow> string" where
  "strip s = rev (dropWhile is_space (rev (dropWhile is_space s)))"

text \<open>
  \<open>str.lower()\<close> on code points below 256: the letters A to Z and the Latin-1 capitals
  192 to 222, the multiplication sign 215 apart, move up by 32.
\<close>

definition lower_char :: "char \<Rightarrow> char" where
  "lower_char c =
     (let n = (of_char c :: nat)
      in if (65 \<le> n \<and> n \<le> 90) \<or> (192 \<le> n \<and> n \<le> 222 \<and> n \<noteq> 215)
         then char_of (n + 32) else c)"

definition lower :: "string \<Rightarrow> string" where
  "lower s = map lower_char s"

section \<open>core/config.py\<close>

record settings =
  SECRET_KEY :: string
  ALGORITHM :: string
  ACCESS_TOKEN_EXPIRE_MINUTES :: int
  REFRESH_TOKEN_EXPIRE_DAYS :: int
  PASSWORD_MIN_LENGTH :: int
  PASSWORD_REQUIRE_UPPERCASE :: bool
  PASSWORD_REQUIRE_LOWERCASE :: bool
  PASSWORD_REQUIRE_DIGITS :: bool
  PASSWORD_REQUIRE_SPECIAL :: bool
  EMAIL_VERIFICATION_EXPIRE_HOURS :: int
  PASSWORD_RESET_EXPIRE_HOURS :: int

text \<open>The values of \<open>Settings\<close> when no environment variable overrides them.\<close>

definition default_settings :: settings where
  "default_settings =
     \<lparr> SECRET_KEY = ''secret-key-change-in-production-MUST-BE-64-CHARS-MINIMUM-PLEASE-CHANGE'',
       ALGORITHM = ''HS256'',
       ACCESS_TOKEN_EXPIRE_MINUTES = 60,
       REFRESH_TOKEN_EXPIRE_DAYS = 30,
       PASSWORD_MIN_LENGTH = 8,
       PASSWORD_REQUIRE_UPPERCASE = True,
       PASSWORD_REQUIRE_LOWERCASE = True,
       PASSWORD_REQUIRE_DIGITS = True,
       PASSWORD_REQUIRE_SPECIAL = True,
       EMAIL_VERIFICATION_EXPIRE_HOURS = 24,
       PASSWORD_RESET_EXPIRE_HOURS = 1 \<rparr>"

section \<open>core/validators.py\<close>

text \<open>
  \<open>re.search(r"[...]", password)\<close> with a single character class is truthy exactly when some
  character of the password is in the class. Below 256 the class \<open>\d\<close> is the ten ASCII
  digits. In the last class \<open>\"\<close> is an escaped double quote (code point 34); the backslash
  itself is not in the class.
\<close>

definition search_class :: "string \<Rightarrow> string \<Rightarrow> bool" where
  "search_class cls password = list_ex (\<lambda>c. c \<in> set cls) password"

definition upper_class :: string where
  "upper_class = ''ABCDEFGHIJKLMNOPQRSTUVWXYZ''"

definition lower_class :: string where
  "lower_class = ''abcdefghijklmnopqrstuvwxyz''"

definition digit_class :: string where
  "digit_class = ''0123456789''"

definition special_class :: string where
  "special_class = ''!@#$%^&*(),.?'' @ [char_of (34 :: nat)] @ '':{}|<>''"

definition msg_length :: "settings \<Rightarrow> string" where
  "msg_length cfg =
     ''Password must be at least '' @ str_int (PASSWORD_MIN_LENGTH cfg) @ '' characters long''"

definition msg_upper :: string where
  "msg_upper = ''Password must contain at least one uppercase letter''"

definition msg_lower :: string where
  "msg_lower = ''Password must contain at least one lowercase letter''"

definition msg_digit :: string where
  "msg_digit = ''Password must contain at least one digit''"

definition msg_special :: string where
  "msg_special =
     ''Password must contain at least one special character (!@#$%^&*(),.?''
       @ [char_of (34 :: nat)] @ '':{}|<>)''"

definition validate_password_strength :: "settings \<Rightarrow> string \<Rightarrow> bool \<times> string" where
  "validate_password_strength cfg password =
     (if int (length password) < PASSWORD_MIN_LENGTH cfg then (False, msg_length cfg)
      else if PASSWORD_REQUIRE_UPPERCASE cfg \<and> \<not> search_class upper_class password
        then (False, msg_upper)
      else if PASSWORD_REQUIRE_LOWERCASE cfg \<and> \<not> search_class lower_class password
        then (False, msg_lower)
      else if PASSWORD_REQUIRE_DIGITS cfg \<and> \<not> search_class digit_class password
        then (False, msg_digit)
      else if PASSWORD_REQUIRE_SPECIAL cfg \<and> \<not> search_class special_class password
        then (False, msg_special)
      else (True, []))"

definition is_strong_password :: "settings \<Rightarrow> string \<Rightarrow> exn + bool" where
  "is_strong_password cfg password =
     (case validate_password_strength cfg password of
        (is_valid, error_message) \<Rightarrow>
          if \<not> is_valid then Inl (ValueError error_message) else Inr True)"

section \<open>Time\<close>

text \<open>
  A \<open>datetime\<close> is an instant in UTC, counted in microseconds since the epoch; a
  \<open>timedelta\<close> is a number of microseconds. The range limits of Python's \<open>datetime\<close> (years 1
  to 9999) are not modelled. \<open>timegm(dt.utctimetuple())\<close>, by which jose turns a
  \<open>datetime\<close> into a NumericDate, drops the microseconds.
\<close>

type_synonym datetime = int
type_synonym timedelta = int

definition timedelta_minutes :: "int \<Rightarrow> timedelta" where
  "timedelta_minutes m = m * 60000000"

definition timedelta_hours :: "int \<Rightarrow> timedelta" where
  "timedelta_hours h = h * 3600000000"

definition timedelta_days :: "int \<Rightarrow> timedelta" where
  "timedelta_days d = d * 86400000000"

definition timegm :: "datetime \<Rightarrow> int" where
  "timegm dt = dt div 1000000"

text \<open>\<open>expires_delta or default\<close>: \<open>None\<close> and the zero \<open>timedelta\<close> are falsy.\<close>

definition delta_or :: "timedelta option \<Rightarrow> timedelta \<Rightarrow> timedelta" where
  "delta_or expires_delta dflt =
     (case expires_delta of None \<Rightarrow> dflt | Some d \<Rightarrow> if d = 0 then dflt else d)"

section \<open>The JWT library (python-jose), as the code uses it\<close>

text \<open>
  The library is not part of the repository; this is the part of its behaviour the code
  relies on. Claim values are the two JSON kinds the repository issues: strings and
  integers. A payload is a dictionary from claim names to values.

  Signing is symbolic: a well-formed token records the algorithm of its header, the key
  its signature was computed with, and its payload; its signature verifies under a key
  and an algorithm exactly when they are the recorded ones. Every other string
  (not three segments, bad base64, a payload that is not a JSON object) is \<open>Malformed\<close>.
\<close>

datatype jval = JStr string | JInt int

type_synonym claims = "string \<rightharpoonup> jval"

datatype token = Malformed string | JWS string string "claims"

text \<open>
  The HMAC algorithms, the ones usable with a plain shared secret. \<open>jwt.encode\<close> raises
  \<open>JWSError\<close> on an algorithm it does not support; the asymmetric algorithms, which need a
  key pair, are outside this model and every theorem is stated for an HMAC algorithm.
\<close>

definition hmac_algorithms :: "string list" where
  "hmac_algorithms = [''HS256'', ''HS384'', ''HS512'']"

definition jwt_encode :: "claims \<Rightarrow> string \<Rightarrow> string \<Rightarrow> exn + token" where
  "jwt_encode cs key algorithm =
     (if algorithm \<in> set hmac_algorithms then Inr (JWS algorithm key cs) else Inl JWSError)"

subsection \<open>\<open>int(str)\<close>\<close>

text \<open>
  \<open>int(s)\<close> for a string of code points below 256: surrounding whitespace is stripped, one
  sign is allowed, then come decimal digits, with single underscores allowed between
  digits. Anything else raises \<open>ValueError\<close> (the message's tail, the \<open>repr\<close> of the
  argument, is left out). The interpreter's limit on the number of digits is not modelled.
\<close>

definition is_digit :: "char \<Rightarrow> bool" where
  "is_digit c = (c \<in> set ''0123456789'')"

definition digit_val :: "char \<Rightarrow> int" where
  "digit_val c = int (of_char c) - 48"

text \<open>
  \<open>parse_digits acc prev_digit s\<close>: \<open>prev_digit\<close> tells that the character before \<open>s\<close> was a
  digit, which an underscore and the end of the string both need.
\<close>

fun parse_digits :: "int \<Rightarrow> bool \<Rightarrow> string \<Rightarrow> int option" where
  "parse_digits acc prev_digit [] = (if prev_digit then Some acc else None)"
| "parse_digits acc prev_digit (c # cs) =
     (if is_digit c then parse_digits (acc * 10 + digit_val c) True cs
      else if c = CHR ''_'' \<and> prev_digit then parse_digits acc False cs
      else None)"

definition int_literal_error :: exn where
  "int_literal_error = ValueError ''invalid literal for int() with base 10''"

definition int_of_str :: "string \<Rightarrow> exn + int" where
  "int_of_str s =
     (let t = strip s;
          (neg, body) = (case t of
                           c # cs \<Rightarrow> if c = CHR ''-'' then (True, cs)
                                     else if c = CHR ''+'' then (False, cs)
                                     else (False, t)
                         | [] \<Rightarrow> (False, t))
      in case parse_digits 0 False body of
           None \<Rightarrow> Inl int_literal_error
         | Some n \<Rightarrow> Inr (if neg then - n else n))"

text \<open>\<open>int(v)\<close> of a claim value.\<close>

fun int_of_jval :: "jval \<Rightarrow> exn + int" where
  "int_of_jval (JInt n) = Inr n"
| "int_of_jval (JStr s) = int_of_str s"

subsection \<open>\<open>jwt.decode\<close>\<close>

text \<open>
  The registered-claim checks of \<open>jwt.decode\<close> with its default options, no audience, no
  issuer, no subject and no access token given, at the library's clock \<open>now\<close>:
  \<^item> \<open>iat\<close>, \<open>nbf\<close>, \<open>exp\<close>, when present, must convert with \<open>int()\<close>;
  \<^item> \<open>nbf\<close> must not be later than the current second;
  \<^item> \<open>exp\<close> is refused only when \<open>exp < now\<close> in whole seconds (\<open>_validate_exp\<close>);
  \<^item> an \<open>aud\<close> claim never matches the absent audience, an \<open>at_hash\<close> claim needs the
    absent access token;
  \<^item> \<open>sub\<close> and \<open>jti\<close>, when present, must be strings.
  Each failure raises \<open>JWTClaimsError\<close> or \<open>ExpiredSignatureError\<close>, both \<open>JWTError\<close>.
\<close>

definition int_claim_ok :: "claims \<Rightarrow> string \<Rightarrow> (int \<Rightarrow> bool) \<Rightarrow> bool" where
  "int_claim_ok cs k accept =
     (case cs k of
        None \<Rightarrow> True
      | Some v \<Rightarrow> (case int_of_jval v of Inl _ \<Rightarrow> False | Inr n \<Rightarrow> accept n))"

definition str_claim_ok :: "claims \<Rightarrow> string \<Rightarrow> bool" where
  "str_claim_ok cs k = (case cs k of None \<Rightarrow> True | Some (JStr _) \<Rightarrow> True | Some (JInt _) \<Rightarrow> False)"

definition validate_claims :: "datetime \<Rightarrow> claims \<Rightarrow> bool" where
  "validate_claims now cs =
     (int_claim_ok cs ''iat'' (\<lambda>_. True)
      \<and> int_claim_ok cs ''nbf'' (\<lambda>nbf. \<not> nbf > timegm now)
      \<and> int_claim_ok cs ''exp'' (\<lambda>exp. \<not> exp < timegm now)
      \<and> cs ''aud'' = None
      \<and> str_claim_ok cs ''sub''
      \<and> str_claim_ok cs ''jti''
      \<and> cs ''at_hash'' = None)"

definition jwt_decode :: "datetime \<Rightarrow> token \<Rightarrow> string \<Rightarrow> string list \<Rightarrow> exn + claims" where
  "jwt_decode now tok key algorithms =
     (case tok of
        Malformed _ \<Rightarrow> Inl JWTError
      | JWS alg signing_key cs \<Rightarrow>
          if alg \<notin> set algorithms \<or> signing_key \<noteq> key then Inl JWTError
          else if \<not> validate_claims now cs then Inl JWTError
          else Inr cs)"

section \<open>core/security.py\<close>

text \<open>
  Each function that reads the clock (\<open>datetime.now(timezone.utc)\<close>) takes the reading as
  its argument \<open>now\<close>. jose's \<open>jwt.encode\<close> stores the \<open>datetime\<close> values of \<open>exp\<close> and
  \<open>iat\<close> as whole seconds; the conversion is written where the payload is built.
\<close>

definition create_access_token ::
    "settings \<Rightarrow> datetime \<Rightarrow> claims \<Rightarrow> timedelta option \<Rightarrow> exn + token" where
  "create_access_token cfg now subject expires_delta =
     (let expire = now + delta_or expires_delta (timedelta_minutes (ACCESS_TOKEN_EXPIRE_MINUTES cfg));
          to_encode = subject(''exp'' \<mapsto> JInt (timegm expire),
                              ''iat'' \<mapsto> JInt (timegm now),
                              ''type'' \<mapsto> JStr ''access'')
      in jwt_encode to_encode (SECRET_KEY cfg) (ALGORITHM cfg))"

definition create_refresh_token ::
    "settings \<Rightarrow> datetime \<Rightarrow> claims \<Rightarrow> timedelta option \<Rightarrow> exn + token" where
  "create_refresh_token cfg now subject expires_delta =
     (let expire = now + delta_or expires_delta (timedelta_days (REFRESH_TOKEN_EXPIRE_DAYS cfg));
          to_encode = subject(''exp'' \<mapsto> JInt (timegm expire),
                              ''iat'' \<mapsto> JInt (timegm now),
                              ''type'' \<mapsto> JStr ''refresh'')
      in jwt_encode to_encode (SECRET_KEY cfg) (ALGORITHM cfg))"

definition create_email_verification_token :: "settings \<Rightarrow> datetime \<Rightarrow> string \<Rightarrow> exn + token" where
  "create_email_verification_token cfg now email =
     (let expire = now + timedelta_hours (EMAIL_VERIFICATION_EXPIRE_HOURS cfg);
          to_encode = [''sub'' \<mapsto> JStr email,
                       ''exp'' \<mapsto> JInt (timegm expire),
                       ''iat'' \<mapsto> JInt (timegm now),
                       ''type'' \<mapsto> JStr ''email_verification'']
      in jwt_encode to_encode (SECRET_KEY cfg) (ALGORITHM cfg))"

definition create_password_reset_token :: "settings \<Rightarrow> datetime \<Rightarrow> string \<Rightarrow> exn + token" where
  "create_password_reset_token cfg now email =
     (let expire = now + timedelta_hours (PASSWORD_RESET_EXPIRE_HOURS cfg);
          to_encode = [''sub'' \<mapsto> JStr email,
                       ''exp'' \<mapsto> JInt (timegm expire),
                       ''iat'' \<mapsto> JInt (timegm now),
                       ''type'' \<mapsto> JStr ''password_reset'']
      in jwt_encode to_encode (SECRET_KEY cfg) (ALGORITHM cfg))"

text \<open>
  \<open>verify_token\<close>: \<open>except jwt.JWTError\<close> turns the library's failures into \<open>None\<close>; any other
  exception would pass through. \<open>payload.get("type") != expected_type\<close> compares a claim
  value, or \<open>None\<close>, with a string.
\<close>

definition verify_token :: "settings \<Rightarrow> datetime \<Rightarrow> token \<Rightarrow> string \<Rightarrow> exn + claims option" where
  "verify_token cfg now tok expected_type =
     (case jwt_decode now tok (SECRET_KEY cfg) [ALGORITHM cfg] of
        Inl e \<Rightarrow> if e = JWTError then Inr None else Inl e
      | Inr payload \<Rightarrow>
          if payload ''type'' \<noteq> Some (JStr expected_type) then Inr None else Inr (Some payload))"

subsection \<open>The credential hasher\<close>

text \<open>
  \<open>pwd_context = CryptContext(schemes=["bcrypt"])\<close> of passlib, which is not part of the
  repository. \<open>pwd_context.verify(secret, hash)\<close> first identifies the scheme of the digest
  and raises \<open>UnknownHashError\<close> when no configured scheme claims it; bcrypt claims a
  digest that starts with one of its five identifiers. An identified digest goes to the
  bcrypt handler, which answers or raises on a digest it cannot parse. The handler and
  \<open>pwd_context.hash\<close> (with the salt it draws) are the two fields of a \<open>hasher\<close>.
\<close>

record hasher =
  bcrypt_hash :: "string \<Rightarrow> string"
  bcrypt_verify :: "string \<Rightarrow> string \<Rightarrow> exn + bool"

definition starts_with :: "string \<Rightarrow> string \<Rightarrow> bool" where
  "starts_with s pre = (take (length pre) s = pre)"

definition bcrypt_idents :: "string list" where
  "bcrypt_idents = [''$2$'', ''$2a$'', ''$2x$'', ''$2y$'', ''$2b$'']"

definition bcrypt_identify :: "string \<Rightarrow> bool" where
  "bcrypt_identify digest = list_ex (starts_with digest) bcrypt_idents"

definition pwd_context_verify :: "hasher \<Rightarrow> string \<Rightarrow> string \<Rightarrow> exn + bool" where
  "pwd_context_verify hs secret digest =
     (if bcrypt_identify digest then bcrypt_verify hs secret digest else Inl UnknownHashError)"

definition verify_password :: "hasher \<Rightarrow> string \<Rightarrow> string \<Rightarrow> exn + bool" where
  "verify_password hs plain_password hashed_password' =
     pwd_context_verify hs plain_password hashed_password'"

definition get_password_hash :: "hasher \<Rightarrow> string \<Rightarrow> string" where
  "get_password_hash hs password = bcrypt_hash hs password"

section \<open>models/user.py and the session\<close>

text \<open>
  The columns of \<open>users\<close> that the code reads or writes. The primary key \<open>id\<close> is
  \<open>user_id\<close>; \<open>created_at\<close> and \<open>updated_at\<close>, which the database maintains by itself, and the
  \<open>tasks\<close> relationship are left out. The table is the list of its rows.
\<close>

record user =
  user_id :: int
  email :: string
  username :: string
  hashed_password :: string
  is_verified :: bool
  is_active :: bool
  failed_login_attempts :: int
  last_failed_login :: "datetime option"
  account_locked_until :: "datetime option"

type_synonym db = "user list"

text \<open>What a call leaves behind: the committed table, and the value returned or the exception raised.\<close>

type_synonym 'a outcome = "db \<times> (exn + 'a)"

text \<open>\<open>db.execute(select(User).where(...)).scalar_one_or_none()\<close>\<close>

fun scalar_one_or_none :: "'a list \<Rightarrow> exn + 'a option" where
  "scalar_one_or_none [] = Inr None"
| "scalar_one_or_none [r] = Inr (Some r)"
| "scalar_one_or_none _ = Inl MultipleResultsFound"

definition select_by_email :: "db \<Rightarrow> string \<Rightarrow> exn + user option" where
  "select_by_email d email' = scalar_one_or_none (filter (\<lambda>r. email r = email') d)"

definition select_by_id :: "db \<Rightarrow> int \<Rightarrow> exn + user option" where
  "select_by_id d uid = scalar_one_or_none (filter (\<lambda>r. user_id r = uid) d)"

text \<open>\<open>db.commit()\<close> after attributes of a loaded row were assigned: the row with that primary key is rewritten.\<close>

definition commit :: "db \<Rightarrow> user \<Rightarrow> db" where
  "commit d u = map (\<lambda>r. if user_id r = user_id u then u else r) d"

text \<open>
  \<open>db.add(user); db.commit()\<close> of a new row: the unique index on \<open>email\<close> refuses a second
  row with the same address (\<open>IntegrityError\<close>, \<open>None\<close> here); otherwise the database assigns a
  fresh primary key and the column defaults.
\<close>

definition next_id :: "db \<Rightarrow> int" where
  "next_id d = foldr max (map user_id d) 0 + 1"

definition add_and_commit :: "db \<Rightarrow> user \<Rightarrow> (db \<times> user) option" where
  "add_and_commit d u =
     (if list_ex (\<lambda>r. email r = email u) d then None
      else let u' = u\<lparr>user_id := next_id d\<rparr> in Some (d @ [u'], u'))"

section \<open>services/auth.py\<close>

definition MAX_FAILED_ATTEMPTS :: int where
  "MAX_FAILED_ATTEMPTS = 5"

definition LOCKOUT_DURATION_MINUTES :: int where
  "LOCKOUT_DURATION_MINUTES = 15"

definition register_user :: "settings \<Rightarrow> hasher \<Rightarrow> db \<Rightarrow> string \<Rightarrow> string \<Rightarrow> string \<Rightarrow> user option outcome" where
  "register_user cfg hs d email' username' password =
     (case is_strong_password cfg password of
        Inl e \<Rightarrow> (d, Inl e)
      | Inr _ \<Rightarrow>
          (let u = \<lparr> user_id = 0,
                     email = email',
                     username = username',
                     hashed_password = get_password_hash hs password,
                     is_verified = False,
                     is_active = True,
                     failed_login_attempts = 0,
                     last_failed_login = None,
                     account_locked_until = None \<rparr>
           in case add_and_commit d u of
                None \<Rightarrow> (d, Inr None)
              | Some (d', u') \<Rightarrow> (d', Inr (Some u'))))"

text \<open>
  The readings of the clock during one login, one per place that reads it:
  the lockout test (line 92), \<open>last_failed_login\<close> (line 108), the new lockout (line 112)
  and the two token constructors.
\<close>

record login_clock =
  at_lock_check :: datetime
  at_failed_login :: datetime
  at_lockout :: datetime
  at_access_token :: datetime
  at_refresh_token :: datetime

record token_pair =
  access_token :: token
  refresh_token :: token
  token_type :: string

text \<open>The two token constructors and the dictionary built from them (lines 124 to 131, 162 to 169).\<close>

definition token_pair_for :: "settings \<Rightarrow> datetime \<Rightarrow> datetime \<Rightarrow> user \<Rightarrow> exn + token_pair" where
  "token_pair_for cfg now_access now_refresh u =
     (case create_access_token cfg now_access [''sub'' \<mapsto> JStr (str_int (user_id u))] None of
        Inl e \<Rightarrow> Inl e
      | Inr access \<Rightarrow>
          (case create_refresh_token cfg now_refresh [''sub'' \<mapsto> JStr (str_int (user_id u))] None of
             Inl e \<Rightarrow> Inl e
           | Inr refresh \<Rightarrow>
               Inr \<lparr> access_token = access, refresh_token = refresh, token_type = ''bearer'' \<rparr>))"

definition authenticate_user ::
    "settings \<Rightarrow> hasher \<Rightarrow> login_clock \<Rightarrow> db \<Rightarrow> string \<Rightarrow> string \<Rightarrow> (user \<times> token_pair) option outcome" where
  "authenticate_user cfg hs clk d email' password =
     (case select_by_email d email' of
        Inl e \<Rightarrow> (d, Inl e)
      | Inr None \<Rightarrow> (d, Inr None)
      | Inr (Some u) \<Rightarrow>
          (case (case account_locked_until u of
                   None \<Rightarrow> Some (d, u)
                 | Some until \<Rightarrow>
                     if at_lock_check clk < until then None
                     else (let u1 = u\<lparr>account_locked_until := None, failed_login_attempts := 0\<rparr>
                           in Some (commit d u1, u1))) of
             None \<Rightarrow> (d, Inr None)
           | Some (d1, u1) \<Rightarrow>
               if \<not> is_active u1 then (d1, Inr None)
               else
                 (case verify_password hs password (hashed_password u1) of
                    Inl e \<Rightarrow> (d1, Inl e)
                  | Inr False \<Rightarrow>
                      (let u2 = u1\<lparr>failed_login_attempts := failed_login_attempts u1 + 1,
                                   last_failed_login := Some (at_failed_login clk)\<rparr>;
                           u3 = (if failed_login_attempts u2 \<ge> MAX_FAILED_ATTEMPTS
                                 then u2\<lparr>account_locked_until :=
                                          Some (at_lockout clk + timedelta_minutes LOCKOUT_DURATION_MINUTES)\<rparr>
                                 else u2)
                       in (commit d1 u3, Inr None))
                  | Inr True \<Rightarrow>
                      (let (d2, u2) =
                             (if failed_login_attempts u1 > 0
                              then (let u' = u1\<lparr>failed_login_attempts := 0, last_failed_login := None\<rparr>
                                    in (commit d1 u', u'))
                              else (d1, u1))
                       in case token_pair_for cfg (at_access_token clk) (at_refresh_token clk) u2 of
                            Inl e \<Rightarrow> (d2, Inl e)
                          | Inr tokens \<Rightarrow> (d2, Inr (Some (u2, tokens)))))))"

text \<open>Python truthiness of a claim value: the empty string and zero are falsy.\<close>

fun truthy :: "jval \<Rightarrow> bool" where
  "truthy (JStr s) = (s \<noteq> [])"
| "truthy (JInt n) = (n \<noteq> 0)"

text \<open>
  \<open>refresh_access_token\<close>: \<open>not payload\<close> holds for \<open>None\<close> and for the empty dictionary;
  \<open>int(user_id)\<close> stands unguarded, so its \<open>ValueError\<close> leaves the function.
\<close>

definition refresh_access_token ::
    "settings \<Rightarrow> datetime \<Rightarrow> datetime \<Rightarrow> datetime \<Rightarrow> db \<Rightarrow> token \<Rightarrow> token_pair option outcome" where
  "refresh_access_token cfg now now_access now_refresh d refresh_token' =
     (case verify_token cfg now refresh_token' ''refresh'' of
        Inl e \<Rightarrow> (d, Inl e)
      | Inr None \<Rightarrow> (d, Inr None)
      | Inr (Some payload) \<Rightarrow>
          if payload = Map.empty then (d, Inr None)
          else
            (case payload ''sub'' of
               None \<Rightarrow> (d, Inr None)
             | Some uid \<Rightarrow>
                 if \<not> truthy uid then (d, Inr None)
                 else
                   (case int_of_jval uid of
                      Inl e \<Rightarrow> (d, Inl e)
                    | Inr n \<Rightarrow>
                        (case select_by_id d n of
                           Inl e \<Rightarrow> (d, Inl e)
                         | Inr None \<Rightarrow> (d, Inr None)
                         | Inr (Some u) \<Rightarrow>
                             if \<not> is_active u then (d, Inr None)
                             else
                               (case token_pair_for cfg now_access now_refresh u of
                                  Inl e \<Rightarrow> (d, Inl e)
                                | Inr tokens \<Rightarrow> (d, Inr (Some tokens)))))))"

text \<open>\<open>User.email == email\<close> with the \<open>sub\<close> claim as \<open>email\<close>: a row matches a string claim equal to its address.\<close>

definition select_by_email_claim :: "db \<Rightarrow> jval \<Rightarrow> exn + user option" where
  "select_by_email_claim d v = scalar_one_or_none (filter (\<lambda>r. JStr (email r) = v) d)"

definition reset_password :: "settings \<Rightarrow> hasher \<Rightarrow> datetime \<Rightarrow> db \<Rightarrow> token \<Rightarrow> string \<Rightarrow> bool outcome" where
  "reset_password cfg hs now d tok new_password =
     (case is_strong_password cfg new_password of
        Inl e \<Rightarrow> (d, Inl e)
      | Inr _ \<Rightarrow>
          (case verify_token cfg now tok ''password_reset'' of
             Inl e \<Rightarrow> (d, Inl e)
           | Inr None \<Rightarrow> (d, Inr False)
           | Inr (Some payload) \<Rightarrow>
               if payload = Map.empty then (d, Inr False)
               else
                 (case payload ''sub'' of
                    None \<Rightarrow> (d, Inr False)
                  | Some email' \<Rightarrow>
                      if \<not> truthy email' then (d, Inr False)
                      else
                        (case select_by_email_claim d email' of
                           Inl e \<Rightarrow> (d, Inl e)
                         | Inr None \<Rightarrow> (d, Inr False)
                         | Inr (Some u) \<Rightarrow>
                             (let u' = u\<lparr>hashed_password := get_password_hash hs new_password,
                                         failed_login_attempts := 0,
                                         last_failed_login := None,
                                         account_locked_until := None\<rparr>
                              in (commit d u', Inr True))))))"

section \<open>api/v1/auth.py: the \<open>register\<close> handler\<close>

text \<open>
  The handler's \<open>except\<close> clauses, in their order: a \<open>ValueError\<close> becomes status 400 with its
  message, an \<open>HTTPException\<close> is raised again, anything else becomes status 500.
\<close>

definition register_except :: "exn \<Rightarrow> exn" where
  "register_except e =
     (if is_ValueError e then HTTPException 400 (str_exn e)
      else case e of
             HTTPException st detail \<Rightarrow> HTTPException st detail
           | _ \<Rightarrow> HTTPException 500 ''An unexpected error occurred'')"

text \<open>
  The body of \<open>register\<close> on a payload that passed the schema. Sending the verification
  mail touches no row and returns a boolean that is ignored. \<open>now_mail\<close> is the clock of the
  verification token, \<open>clk\<close> the clock of the login that follows. With no tokens,
  \<open>tokens["access_token"]\<close> raises \<open>TypeError\<close>.
\<close>

definition register ::
    "settings \<Rightarrow> hasher \<Rightarrow> datetime \<Rightarrow> login_clock \<Rightarrow> db \<Rightarrow> string \<Rightarrow> string \<Rightarrow> string
       \<Rightarrow> (user \<times> token_pair) outcome" where
  "register cfg hs now_mail clk d email' username' password =
     (if email' = [] \<or> username' = [] \<or> password = []
      then (d, Inl (HTTPException 400 ''Email, username, and password are required''))
      else if strip email' = [] \<or> strip username' = []
      then (d, Inl (HTTPException 400 ''Email and username cannot be empty or whitespace only''))
      else
        (case register_user cfg hs d (lower (strip email')) (strip username') password of
           (d1, Inl e) \<Rightarrow> (d1, Inl (register_except e))
         | (d1, Inr None) \<Rightarrow> (d1, Inl (HTTPException 400 ''Email already registered''))
         | (d1, Inr (Some u)) \<Rightarrow>
             (case create_email_verification_token cfg now_mail (email u) of
                Inl e \<Rightarrow> (d1, Inl (register_except e))
              | Inr verification_token \<Rightarrow>
                  (case authenticate_user cfg hs clk d1 (email u) password of
                     (d2, Inl e) \<Rightarrow> (d2, Inl (register_except e))
                   | (d2, Inr None) \<Rightarrow> (d2, Inl (register_except TypeError))
                   | (d2, Inr (Some (_, tokens))) \<Rightarrow> (d2, Inr (u, tokens))))))"

section \<open>The specification's view\<close>

subsection \<open>Password policy\<close>







subsection \<open>Caller-supplied claims that survive verification\<close>

text \<open>
  What the library's registered-claim checks ask of the claims a caller hands to a token
  constructor (the constructor itself sets \<open>exp\<close>, \<open>iat\<close> and \<open>type\<close>): no \<open>aud\<close> and no
  \<open>at_hash\<close>, a string for \<open>sub\<close> and for \<open>jti\<close>, and an \<open>nbf\<close> that is an integer not later
  than the second of verification.
\<close>

definition subject_claims_ok :: "datetime \<Rightarrow> claims \<Rightarrow> bool" where
  "subject_claims_ok now subject =
     (subject ''aud'' = None \<and> subject ''at_hash'' = None
      \<and> str_claim_ok subject ''sub'' \<and> str_claim_ok subject ''jti''
      \<and> int_claim_ok subject ''nbf'' (\<lambda>nbf. \<not> nbf > timegm now))"

subsection \<open>Data for the worked examples\<close>

text \<open>
  A stand-in for bcrypt: the digest of a password is the identifier \<open>$2b$\<close> followed by the
  password. A user, Alice, with four failed logins on record, and a clock whose five
  readings are 100 to 104 microseconds.
\<close>

definition example_hasher :: hasher where
  "example_hasher =
     \<lparr> bcrypt_hash = (\<lambda>p. ''$2b$'' @ p),
       bcrypt_verify = (\<lambda>p digest. Inr (digest = ''$2b$'' @ p)) \<rparr>"

definition alice :: user where
  "alice =
     \<lparr> user_id = 1,
       email = ''alice@example.com'',
       username = ''alice'',
       hashed_password = ''$2b$Alice123!'',
       is_verified = False,
       is_active = True,
       failed_login_attempts = 4,
       last_failed_login = None,
       account_locked_until = None \<rparr>"

definition example_clock :: login_clock where
  "example_clock =
     \<lparr> at_lock_check = 100,
       at_failed_login = 101,
       at_lockout = 102,
       at_access_token = 103,
       at_refresh_token = 104 \<rparr>"

section \<open>Facts about the session and the token functions\<close>

lemma scalar_one_or_none_Some: "scalar_one_or_none rows = Inr (Some u) \<longleftrightarrow> rows = [u]"
  by (cases rows rule: scalar_one_or_none.cases) auto

lemma scalar_one_or_none_None: "scalar_one_or_none rows = Inr None \<longleftrightarrow> rows = []"
  by (cases rows rule: scalar_one_or_none.cases) auto

lemma select_by_email_found:
  assumes "select_by_email d e = Inr (Some u)"
  shows "email u = e" and "u \<in> set d"
proof -
  have "u \<in> set (filter (\<lambda>r. email r = e) d)"
    using assms by (simp add: select_by_email_def scalar_one_or_none_Some)
  then show "email u = e" and "u \<in> set d" by simp_all
qed

lemma select_by_email_append:
  assumes "select_by_email d e = Inr None" and "email u = e"
  shows "select_by_email (d @ [u]) e = Inr (Some u)"
  using assms by (simp add: select_by_email_def scalar_one_or_none_None)

text \<open>Two commits on the same row leave the second.\<close>

lemma commit_commit: "user_id u2 = user_id u1 \<Longrightarrow> commit (commit d u1) u2 = commit d u2"
  by (simp add: commit_def)

text \<open>With a primary key, a commit rewrites the one row it was loaded from.\<close>

lemma commit_replaces:
  assumes "distinct (map user_id d)" and "u \<in> set d" and "user_id u' = user_id u"
  shows "commit d u' = map (\<lambda>r. if r = u then u' else r) d"
proof -
  have "\<And>r. r \<in> set d \<Longrightarrow> (user_id r = user_id u) = (r = u)"
    using assms(1,2) by (meson distinct_map inj_on_def)
  then show ?thesis
    using assms(3) by (simp add: commit_def)
qed

lemma filter_commit:
  assumes "filter P d = [u]" and "distinct (map user_id d)" and "user_id u' = user_id u" and "P u'"
  shows "filter P (commit d u') = [u']"
proof -
  have in_filter: "set (filter P d) = {u}"
    using assms(1) by simp
  then have u_in: "u \<in> set d"
    by auto
  have only: "\<And>r. r \<in> set d \<Longrightarrow> P r = (r = u)"
    using in_filter by auto
  let ?f = "\<lambda>r. if r = u then u' else r"
  have "filter P (map ?f d) = map ?f (filter (P \<circ> ?f) d)"
    by (simp add: filter_map)
  also have "filter (P \<circ> ?f) d = filter P d"
    by (rule filter_cong) (auto simp: only assms(4))
  finally show ?thesis
    using assms(1) commit_replaces [OF assms(2) u_in assms(3)] by simp
qed

lemma select_by_email_commit:
  assumes "select_by_email d e = Inr (Some u)" and "distinct (map user_id d)"
    and "user_id u' = user_id u" and "email u' = e"
  shows "select_by_email (commit d u') e = Inr (Some u')"
  using assms filter_commit [of "\<lambda>r. email r = e" d u u']
  by (simp add: select_by_email_def scalar_one_or_none_Some)

text \<open>The key the database assigns is above every key in the table.\<close>

lemma next_id_fresh: "r \<in> set d \<Longrightarrow> user_id r < next_id d"
  by (induction d) (auto simp: next_id_def)

lemma commit_append_fresh:
  assumes "user_id u' = next_id d"
  shows "commit (d @ [u]) u' = d @ [if user_id u = next_id d then u' else u]"
proof -
  have "map (\<lambda>r. if user_id r = user_id u' then u' else r) d = d"
  proof (rule map_idI)
    fix r assume "r \<in> set d"
    then have "user_id r \<noteq> next_id d"
      using next_id_fresh [of r d] by simp
    then show "(if user_id r = user_id u' then u' else r) = r"
      using assms by simp
  qed
  then show ?thesis
    using assms by (simp add: commit_def)
qed

lemma is_strong_password_cases:
  "is_strong_password cfg p =
     (if fst (validate_password_strength cfg p) then Inr True
      else Inl (ValueError (snd (validate_password_strength cfg p))))"
  by (simp add: is_strong_password_def split: prod.splits)

lemma int_of_str_error: "int_of_str s = Inl err \<Longrightarrow> err = int_literal_error"
  by (auto simp: int_of_str_def Let_def split: option.splits prod.splits)

lemma verify_token_cases:
  "verify_token cfg now tok expected_type =
     (case tok of
        Malformed _ \<Rightarrow> Inr None
      | JWS alg signing_key cs \<Rightarrow>
          if alg = ALGORITHM cfg \<and> signing_key = SECRET_KEY cfg \<and> validate_claims now cs
             \<and> cs ''type'' = Some (JStr expected_type)
          then Inr (Some cs) else Inr None)"
  by (simp add: verify_token_def jwt_decode_def split: token.splits)

lemma validate_claims_issued:
  "validate_claims now (subject(''exp'' \<mapsto> JInt x, ''iat'' \<mapsto> JInt i, ''type'' \<mapsto> t))
     = (subject_claims_ok now subject \<and> timegm now \<le> x)"
  by (auto simp: validate_claims_def subject_claims_ok_def int_claim_ok_def str_claim_ok_def)

lemma issued_roundtrip:
  assumes "ALGORITHM cfg \<in> set hmac_algorithms"
  shows "jwt_encode (subject(''exp'' \<mapsto> JInt x, ''iat'' \<mapsto> JInt i, ''type'' \<mapsto> JStr T))
             (SECRET_KEY cfg) (ALGORITHM cfg)
           = Inr (JWS (ALGORITHM cfg) (SECRET_KEY cfg)
                    (subject(''exp'' \<mapsto> JInt x, ''iat'' \<mapsto> JInt i, ''type'' \<mapsto> JStr T)))"
    and "verify_token cfg now
             (JWS (ALGORITHM cfg) (SECRET_KEY cfg)
                (subject(''exp'' \<mapsto> JInt x, ''iat'' \<mapsto> JInt i, ''type'' \<mapsto> JStr T))) U
           = (if subject_claims_ok now subject \<and> timegm now \<le> x \<and> U = T
              then Inr (Some (subject(''exp'' \<mapsto> JInt x, ''iat'' \<mapsto> JInt i, ''type'' \<mapsto> JStr T)))
              else Inr None)"
  using assms by (auto simp: jwt_encode_def verify_token_cases validate_claims_issued)

lemma email_subject_ok: "subject_claims_ok now [''sub'' \<mapsto> JStr s]"
  by (simp add: subject_claims_ok_def str_claim_ok_def int_claim_ok_def)

lemma alice_found: "select_by_email [alice] ''alice@example.com'' = Inr (Some alice)"
  by (simp add: select_by_email_def alice_def)

lemma wrong_password_for_alice:
  "verify_password example_hasher ''wrong'' (hashed_password alice) = Inr False"
  by (simp add: verify_password_def pwd_context_verify_def bcrypt_identify_def bcrypt_idents_def
      starts_with_def example_hasher_def alice_def)

lemma right_password_for_alice:
  "verify_password example_hasher ''Alice123!'' (hashed_password alice) = Inr True"
  by (simp add: verify_password_def pwd_context_verify_def bcrypt_identify_def bcrypt_idents_def
      starts_with_def example_hasher_def alice_def)

lemma alice_variant_found:
  "select_by_email [alice\<lparr>failed_login_attempts := n, account_locked_until := t\<rparr>] ''alice@example.com''
     = Inr (Some (alice\<lparr>failed_login_attempts := n, account_locked_until := t\<rparr>))"
  by (simp add: select_by_email_def alice_def)

lemma tokens_for_user_1:
  "user_id w = 1 \<Longrightarrow>
   token_pair_for default_settings 103 104 w
     = Inr \<lparr> access_token = JWS ''HS256'' (SECRET_KEY default_settings)
                 [''sub'' \<mapsto> JStr ''1'', ''exp'' \<mapsto> JInt 3600, ''iat'' \<mapsto> JInt 0,
                  ''type'' \<mapsto> JStr ''access''],
             refresh_token = JWS ''HS256'' (SECRET_KEY default_settings)
                 [''sub'' \<mapsto> JStr ''1'', ''exp'' \<mapsto> JInt 2592000, ''iat'' \<mapsto> JInt 0,
                  ''type'' \<mapsto> JStr ''refresh''],
             token_type = ''bearer'' \<rparr>"
  by (simp add: token_pair_for_def create_access_token_def create_refresh_token_def jwt_encode_def
      hmac_algorithms_def default_settings_def delta_or_def timedelta_minutes_def timedelta_days_def
      timegm_def str_int_def str_nat.simps digit_char_def Let_def)

section \<open>Password policy\<close>



section \<open>Account lockout\<close>

text \<open>
  C1, as amended. A login attempt for a user who exists and is active, with a password
  check that fails. When the stored row has no \<open>account_locked_until\<close>:
  \<open>failed_login_attempts\<close> goes up by 1 from its stored value and \<open>last_failed_login\<close> becomes
  the clock reading of line 108; when the new count is at least \<open>MAX_FAILED_ATTEMPTS\<close> = 5,
  \<open>account_locked_until\<close> becomes the clock reading of line 112 plus 15 minutes, otherwise it
  is not assigned. When the stored row has an \<open>account_locked_until\<close> that has run out: the
  count restarts, \<open>failed_login_attempts\<close> becomes 1 whatever it was, \<open>last_failed_login\<close>
  becomes the clock reading of line 108 and \<open>account_locked_until\<close> becomes null. In both
  cases the row is committed and the call returns no user and no tokens.
\<close>

theorem failed_password_check_counts:
  assumes found: "select_by_email d e = Inr (Some u)"
    and pk: "distinct (map user_id d)"
    and active: "is_active u"
    and wrong: "verify_password hs password (hashed_password u) = Inr False"
  shows "(account_locked_until u = None \<longrightarrow>
            (let count = failed_login_attempts u + 1;
                 u2 = u\<lparr>failed_login_attempts := count,
                        last_failed_login := Some (at_failed_login clk)\<rparr>;
                 u' = (if count \<ge> 5
                       then u2\<lparr>account_locked_until := Some (at_lockout clk + timedelta_minutes 15)\<rparr>
                       else u2)
             in authenticate_user cfg hs clk d e password = (commit d u', Inr None)
                \<and> select_by_email (commit d u') e = Inr (Some u')))
       \<and> (\<forall>until. account_locked_until u = Some until \<and> \<not> at_lock_check clk < until \<longrightarrow>
            (let u' = u\<lparr>account_locked_until := None,
                        failed_login_attempts := 1,
                        last_failed_login := Some (at_failed_login clk)\<rparr>
             in authenticate_user cfg hs clk d e password = (commit d u', Inr None)
                \<and> select_by_email (commit d u') e = Inr (Some u')))"
proof -
  have e: "email u = e"
    using found by (rule select_by_email_found)
  note sel = select_by_email_commit [OF found pk]
  have unlocked: "let count = failed_login_attempts u + 1;
                 u2 = u\<lparr>failed_login_attempts := count,
                        last_failed_login := Some (at_failed_login clk)\<rparr>;
                 u' = (if count \<ge> 5
                       then u2\<lparr>account_locked_until := Some (at_lockout clk + timedelta_minutes 15)\<rparr>
                       else u2)
             in authenticate_user cfg hs clk d e password = (commit d u', Inr None)
                \<and> select_by_email (commit d u') e = Inr (Some u')"
    if "account_locked_until u = None"
    using that found wrong active e sel
    by (simp add: authenticate_user_def Let_def MAX_FAILED_ATTEMPTS_def LOCKOUT_DURATION_MINUTES_def)
  have expired: "let u' = u\<lparr>account_locked_until := None,
                        failed_login_attempts := 1,
                        last_failed_login := Some (at_failed_login clk)\<rparr>
             in authenticate_user cfg hs clk d e password = (commit d u', Inr None)
                \<and> select_by_email (commit d u') e = Inr (Some u')"
    if "account_locked_until u = Some until" and "\<not> at_lock_check clk < until" for until
    using that found wrong active e sel
    by (simp add: authenticate_user_def Let_def MAX_FAILED_ATTEMPTS_def commit_commit)
  show ?thesis
    using unlocked expired by blast
qed

text \<open>
  The claim as written fails for a user who is not currently locked because the lockout on
  record has run out. Alice, with five failures and a lockout until 50, tries a wrong
  password at clock 100: the stored count 5 becomes 1, not 6; no new lockout is set although
  6 would have reached the maximum; and \<open>account_locked_until\<close> does not keep its value.
\<close>

theorem failed_password_check_counts_counterexample:
  "select_by_email [alice\<lparr>failed_login_attempts := 5, account_locked_until := Some 50\<rparr>]
       ''alice@example.com''
     = Inr (Some (alice\<lparr>failed_login_attempts := 5, account_locked_until := Some 50\<rparr>))
   \<and> is_active (alice\<lparr>failed_login_attempts := 5, account_locked_until := Some 50\<rparr>)
   \<and> \<not> at_lock_check example_clock < 50
   \<and> verify_password example_hasher ''wrong''
        (hashed_password (alice\<lparr>failed_login_attempts := 5, account_locked_until := Some 50\<rparr>))
       = Inr False
   \<and> authenticate_user default_settings example_hasher example_clock
        [alice\<lparr>failed_login_attempts := 5, account_locked_until := Some 50\<rparr>]
        ''alice@example.com'' ''wrong''
       = ([alice\<lparr>failed_login_attempts := 1, last_failed_login := Some 101\<rparr>], Inr None)
   \<and> failed_login_attempts (alice\<lparr>failed_login_attempts := 1, last_failed_login := Some 101\<rparr>)
       \<noteq> 5 + 1
   \<and> account_locked_until (alice\<lparr>failed_login_attempts := 1, last_failed_login := Some 101\<rparr>)
       \<noteq> Some (at_lockout example_clock + timedelta_minutes 15)
   \<and> account_locked_until (alice\<lparr>failed_login_attempts := 1, last_failed_login := Some 101\<rparr>)
       \<noteq> Some 50"
  by (simp add: authenticate_user_def select_by_email_def alice_def example_clock_def
      verify_password_def pwd_context_verify_def bcrypt_identify_def bcrypt_idents_def
      starts_with_def example_hasher_def commit_def Let_def MAX_FAILED_ATTEMPTS_def)

text \<open>
  Alice's fifth wrong password with no lockout on record: the count becomes 5 and the account
  is locked for 15 minutes. Alice's wrong password after a lockout that has run out: the
  count becomes 1 and the lockout is cleared.
\<close>

theorem failed_password_check_counts_witness:
  "select_by_email [alice] ''alice@example.com'' = Inr (Some alice)
   \<and> is_active alice \<and> account_locked_until alice = None \<and> failed_login_attempts alice = 4
   \<and> verify_password example_hasher ''wrong'' (hashed_password alice) = Inr False
   \<and> authenticate_user default_settings example_hasher example_clock [alice]
        ''alice@example.com'' ''wrong''
       = ([alice\<lparr>failed_login_attempts := 5, last_failed_login := Some 101,
                 account_locked_until := Some 900000102\<rparr>], Inr None)
   \<and> account_locked_until (alice\<lparr>failed_login_attempts := 5, account_locked_until := Some 50\<rparr>)
       = Some 50
   \<and> \<not> at_lock_check example_clock < 50
   \<and> authenticate_user default_settings example_hasher example_clock
        [alice\<lparr>failed_login_attempts := 5, account_locked_until := Some 50\<rparr>]
        ''alice@example.com'' ''wrong''
       = ([alice\<lparr>failed_login_attempts := 1, last_failed_login := Some 101\<rparr>], Inr None)"
proof -
  have pk: "distinct (map user_id [w])" for w :: user
    by simp
  have active: "is_active alice"
    by (simp add: alice_def)
  have active': "is_active (alice\<lparr>failed_login_attempts := 5, account_locked_until := Some 50\<rparr>)"
    by (simp add: alice_def)
  have wrong': "verify_password example_hasher ''wrong''
      (hashed_password (alice\<lparr>failed_login_attempts := 5, account_locked_until := Some 50\<rparr>))
      = Inr False"
    using wrong_password_for_alice by (simp add: alice_def)
  have expired: "\<not> at_lock_check example_clock < 50"
    by (simp add: example_clock_def)
  show ?thesis
    using alice_found active wrong_password_for_alice expired
      failed_password_check_counts [OF alice_found pk active wrong_password_for_alice,
        of example_clock default_settings, THEN conjunct1]
      failed_password_check_counts [OF alice_variant_found pk active' wrong',
        of example_clock default_settings, THEN conjunct2, rule_format, of 50]
    by (simp add: Let_def commit_def alice_def example_clock_def timedelta_minutes_def)
qed

lemma alice_tokens:
  "token_pair_for default_settings 103 104 (alice\<lparr>failed_login_attempts := 0, last_failed_login := None\<rparr>)
     = Inr \<lparr> access_token = JWS ''HS256'' (SECRET_KEY default_settings)
                 [''sub'' \<mapsto> JStr ''1'', ''exp'' \<mapsto> JInt 3600, ''iat'' \<mapsto> JInt 0,
                  ''type'' \<mapsto> JStr ''access''],
             refresh_token = JWS ''HS256'' (SECRET_KEY default_settings)
                 [''sub'' \<mapsto> JStr ''1'', ''exp'' \<mapsto> JInt 2592000, ''iat'' \<mapsto> JInt 0,
                  ''type'' \<mapsto> JStr ''refresh''],
             token_type = ''bearer'' \<rparr>"
  by (simp add: token_pair_for_def create_access_token_def create_refresh_token_def jwt_encode_def
      hmac_algorithms_def default_settings_def delta_or_def timedelta_minutes_def timedelta_days_def
      timegm_def alice_def str_int_def str_nat.simps digit_char_def Let_def)

lemma alice_reset_token:
  "verify_token default_settings 0
     (JWS ''HS256'' (SECRET_KEY default_settings)
        [''sub'' \<mapsto> JStr ''alice@example.com'', ''exp'' \<mapsto> JInt 3600, ''iat'' \<mapsto> JInt 0,
         ''type'' \<mapsto> JStr ''password_reset''])
     ''password_reset''
   = Inr (Some [''sub'' \<mapsto> JStr ''alice@example.com'', ''exp'' \<mapsto> JInt 3600, ''iat'' \<mapsto> JInt 0,
                ''type'' \<mapsto> JStr ''password_reset''])"
  by (simp add: verify_token_cases validate_claims_def int_claim_ok_def str_claim_ok_def
      timegm_def default_settings_def)

lemma strong_example_password: "is_strong_password default_settings ''Alice456!'' = Inr True"
  by (simp add: is_strong_password_def validate_password_strength_def default_settings_def
      search_class_def upper_class_def lower_class_def digit_class_def special_class_def)

text \<open>
  C2. A login attempt for a user whose \<open>account_locked_until\<close> is set. While the clock is before
  that instant, the call returns no user and no tokens and leaves the table as it was, whatever
  the hasher and the password: the password check is not reached. Once the clock has reached
  it, the row is committed with \<open>failed_login_attempts\<close> 0 and no \<open>account_locked_until\<close>, and the
  same call goes on from that row \<open>u1\<close> and that table \<open>d1\<close>: an inactive user is refused with
  the table \<open>d1\<close>; otherwise the password is checked, and an exception of the hasher leaves
  with \<open>d1\<close>, a wrong password is counted as the first failure, and a right password returns
  \<open>u1\<close> with a token pair and the table \<open>d1\<close>. That is what a login on the table \<open>d1\<close> does.
\<close>

theorem locked_account_gate:
  assumes found: "select_by_email d e = Inr (Some u)"
    and pk: "distinct (map user_id d)"
    and locked: "account_locked_until u = Some until"
  shows "(at_lock_check clk < until \<longrightarrow>
            (\<forall>hs' password'. authenticate_user cfg hs' clk d e password' = (d, Inr None)))
       \<and> (\<not> at_lock_check clk < until \<longrightarrow>
            (let u1 = u\<lparr>account_locked_until := None, failed_login_attempts := 0\<rparr>;
                 d1 = commit d u1
             in select_by_email d1 e = Inr (Some u1)
                \<and> authenticate_user cfg hs clk d e password
                    = (if \<not> is_active u then (d1, Inr None)
                       else case verify_password hs password (hashed_password u) of
                              Inl err \<Rightarrow> (d1, Inl err)
                            | Inr False \<Rightarrow>
                                (commit d (u1\<lparr>failed_login_attempts := 1,
                                               last_failed_login := Some (at_failed_login clk)\<rparr>),
                                 Inr None)
                            | Inr True \<Rightarrow>
                                (case token_pair_for cfg (at_access_token clk) (at_refresh_token clk) u1 of
                                   Inl err \<Rightarrow> (d1, Inl err)
                                 | Inr tokens \<Rightarrow> (d1, Inr (Some (u1, tokens)))))
                \<and> authenticate_user cfg hs clk d e password
                    = authenticate_user cfg hs clk d1 e password))"
proof -
  have e: "email u = e"
    using found by (rule select_by_email_found)
  let ?u1 = "u\<lparr>account_locked_until := None, failed_login_attempts := 0\<rparr>"
  let ?d1 = "commit d ?u1"
  have sel: "select_by_email ?d1 e = Inr (Some ?u1)"
    using select_by_email_commit [OF found pk, of ?u1] e by simp
  have rejected: "authenticate_user cfg hs' clk d e password' = (d, Inr None)"
    if "at_lock_check clk < until" for hs' password'
    using that found locked by (simp add: authenticate_user_def)
  have outcome: "authenticate_user cfg hs clk d e password
                    = (if \<not> is_active u then (?d1, Inr None)
                       else case verify_password hs password (hashed_password u) of
                              Inl err \<Rightarrow> (?d1, Inl err)
                            | Inr False \<Rightarrow>
                                (commit d (?u1\<lparr>failed_login_attempts := 1,
                                               last_failed_login := Some (at_failed_login clk)\<rparr>),
                                 Inr None)
                            | Inr True \<Rightarrow>
                                (case token_pair_for cfg (at_access_token clk) (at_refresh_token clk) ?u1 of
                                   Inl err \<Rightarrow> (?d1, Inl err)
                                 | Inr tokens \<Rightarrow> (?d1, Inr (Some (?u1, tokens)))))"
    if "\<not> at_lock_check clk < until"
    using that found locked
    by (simp add: authenticate_user_def Let_def MAX_FAILED_ATTEMPTS_def commit_commit
        split: sum.splits bool.splits)
  have rerun: "authenticate_user cfg hs clk d e password
                 = authenticate_user cfg hs clk ?d1 e password"
    if "\<not> at_lock_check clk < until"
    using that found locked sel by (simp add: authenticate_user_def Let_def)
  show ?thesis
    using rejected outcome rerun sel by (simp add: Let_def)
qed

text \<open>
  Alice locked until 500 is refused at clock 100 for every hasher and password. Locked until
  50, at clock 100: with the right password she is logged in with the reset row, with a wrong
  one the failure is counted as her first, and when she is inactive she is refused with the
  reset row committed.
\<close>

theorem locked_account_gate_witness:
  "at_lock_check example_clock < 500
   \<and> (\<forall>hs' password'.
         authenticate_user default_settings hs' example_clock
           [alice\<lparr>failed_login_attempts := 5, account_locked_until := Some 500\<rparr>]
           ''alice@example.com'' password'
         = ([alice\<lparr>failed_login_attempts := 5, account_locked_until := Some 500\<rparr>], Inr None))
   \<and> \<not> at_lock_check example_clock < 50
   \<and> authenticate_user default_settings example_hasher example_clock
        [alice\<lparr>failed_login_attempts := 5, account_locked_until := Some 50\<rparr>]
        ''alice@example.com'' ''Alice123!''
       = ([alice\<lparr>failed_login_attempts := 0\<rparr>],
          Inr (Some (alice\<lparr>failed_login_attempts := 0\<rparr>,
            \<lparr> access_token = JWS ''HS256'' (SECRET_KEY default_settings)
                   [''sub'' \<mapsto> JStr ''1'', ''exp'' \<mapsto> JInt 3600, ''iat'' \<mapsto> JInt 0,
                    ''type'' \<mapsto> JStr ''access''],
               refresh_token = JWS ''HS256'' (SECRET_KEY default_settings)
                   [''sub'' \<mapsto> JStr ''1'', ''exp'' \<mapsto> JInt 2592000, ''iat'' \<mapsto> JInt 0,
                    ''type'' \<mapsto> JStr ''refresh''],
               token_type = ''bearer'' \<rparr>)))
   \<and> authenticate_user default_settings example_hasher example_clock
        [alice\<lparr>failed_login_attempts := 5, account_locked_until := Some 50\<rparr>]
        ''alice@example.com'' ''wrong''
       = ([alice\<lparr>failed_login_attempts := 1, last_failed_login := Some 101\<rparr>], Inr None)
   \<and> authenticate_user default_settings example_hasher example_clock
        [alice\<lparr>is_active := False, failed_login_attempts := 5, account_locked_until := Some 50\<rparr>]
        ''alice@example.com'' ''Alice123!''
       = ([alice\<lparr>is_active := False, failed_login_attempts := 0\<rparr>], Inr None)"
proof -
  have pk: "distinct (map user_id [w])" for w :: user
    by simp
  have locked: "account_locked_until (alice\<lparr>failed_login_attempts := 5, account_locked_until := Some t\<rparr>)
                  = Some t" for t
    by simp
  have found': "select_by_email
      [alice\<lparr>is_active := False, failed_login_attempts := 5, account_locked_until := Some 50\<rparr>]
      ''alice@example.com''
      = Inr (Some (alice\<lparr>is_active := False, failed_login_attempts := 5,
                         account_locked_until := Some 50\<rparr>))"
    by (simp add: select_by_email_def alice_def)
  have locked': "account_locked_until
      (alice\<lparr>is_active := False, failed_login_attempts := 5, account_locked_until := Some 50\<rparr>)
      = Some 50"
    by simp
  have t1: "at_lock_check example_clock < 500" and t2: "\<not> at_lock_check example_clock < 50"
    by (simp_all add: example_clock_def)
  have right: "verify_password example_hasher ''Alice123!'' ''$2b$Alice123!'' = Inr True"
    using right_password_for_alice by (simp add: alice_def)
  have wrong: "verify_password example_hasher ''wrong'' ''$2b$Alice123!'' = Inr False"
    using wrong_password_for_alice by (simp add: alice_def)
  note tk = tokens_for_user_1 [of "alice\<lparr>account_locked_until := None, failed_login_attempts := 0\<rparr>"]
  show ?thesis
    using t1 t2 right wrong tk
      locked_account_gate [OF alice_variant_found pk locked, of example_clock 500 default_settings]
      locked_account_gate [OF alice_variant_found pk locked, of example_clock 50 default_settings
        example_hasher "''Alice123!''"]
      locked_account_gate [OF alice_variant_found pk locked, of example_clock 50 default_settings
        example_hasher "''wrong''"]
      locked_account_gate [OF found' pk locked', of example_clock default_settings
        example_hasher "''Alice123!''"]
    by (simp add: Let_def commit_def alice_def example_clock_def)
qed

text \<open>
  C3, as amended. (a) After a successful login of a user whose counter is not negative,
  the committed row has \<open>failed_login_attempts\<close> 0 and no \<open>account_locked_until\<close>. (b) After a
  login attempt that finds a lockout that has run out, the committed row has no
  \<open>account_locked_until\<close>, and its \<open>failed_login_attempts\<close> is 0 unless the password check of
  that same call fails, in which case it is 1. (c) A password reset with a strong password
  and a verified reset token for the user's address returns \<open>True\<close> and commits the new
  digest with \<open>failed_login_attempts\<close> 0, no \<open>last_failed_login\<close> and no \<open>account_locked_until\<close>,
  whatever the lockout state was.
\<close>

theorem lockout_counters_cleared:
  assumes found: "select_by_email d e = Inr (Some u)"
    and pk: "distinct (map user_id d)"
  shows "(authenticate_user cfg hs clk d e password = (d', Inr (Some (u', tokens)))
            \<and> 0 \<le> failed_login_attempts u \<longrightarrow>
          select_by_email d' e = Inr (Some u')
            \<and> failed_login_attempts u' = 0 \<and> account_locked_until u' = None)
       \<and> (account_locked_until u = Some until \<and> \<not> at_lock_check clk < until \<longrightarrow>
            (\<exists>u''. select_by_email (fst (authenticate_user cfg hs clk d e password)) e = Inr (Some u'')
               \<and> account_locked_until u'' = None
               \<and> failed_login_attempts u'' =
                   (if is_active u \<and> verify_password hs password (hashed_password u) = Inr False
                    then 1 else 0)))
       \<and> (is_strong_password cfg new_password = Inr True
            \<and> verify_token cfg now tok ''password_reset'' = Inr (Some payload)
            \<and> payload ''sub'' = Some (JStr e) \<and> e \<noteq> [] \<longrightarrow>
            (let u3 = u\<lparr>hashed_password := get_password_hash hs new_password,
                         failed_login_attempts := 0,
                         last_failed_login := None,
                         account_locked_until := None\<rparr>
             in reset_password cfg hs now d tok new_password = (commit d u3, Inr True)
                \<and> select_by_email (commit d u3) e = Inr (Some u3)))"
proof -
  have e: "email u = e"
    using found by (rule select_by_email_found)
  note sel = select_by_email_commit [OF found pk]
  have a: "select_by_email d' e = Inr (Some u')
            \<and> failed_login_attempts u' = 0 \<and> account_locked_until u' = None"
    if "authenticate_user cfg hs clk d e password = (d', Inr (Some (u', tokens)))"
      and "0 \<le> failed_login_attempts u"
    using that found e sel
    by (auto simp: authenticate_user_def Let_def commit_commit
        split: option.splits if_splits sum.splits bool.splits)
  have b: "\<exists>u''. select_by_email (fst (authenticate_user cfg hs clk d e password)) e = Inr (Some u'')
               \<and> account_locked_until u'' = None
               \<and> failed_login_attempts u'' =
                   (if is_active u \<and> verify_password hs password (hashed_password u) = Inr False
                    then 1 else 0)"
    if "account_locked_until u = Some until" and "\<not> at_lock_check clk < until"
    using that found e sel
    by (auto simp: authenticate_user_def Let_def commit_commit MAX_FAILED_ATTEMPTS_def
        split: option.splits if_splits sum.splits bool.splits)
  have c: "let u3 = u\<lparr>hashed_password := get_password_hash hs new_password,
                         failed_login_attempts := 0,
                         last_failed_login := None,
                         account_locked_until := None\<rparr>
             in reset_password cfg hs now d tok new_password = (commit d u3, Inr True)
                \<and> select_by_email (commit d u3) e = Inr (Some u3)"
    if "is_strong_password cfg new_password = Inr True"
      and "verify_token cfg now tok ''password_reset'' = Inr (Some payload)"
      and "payload ''sub'' = Some (JStr e)" and "e \<noteq> []"
  proof -
    have "payload \<noteq> Map.empty"
      using that(3) by auto
    moreover have "select_by_email_claim d (JStr e) = Inr (Some u)"
      using found by (simp add: select_by_email_claim_def select_by_email_def)
    ultimately show ?thesis
      using that e sel by (simp add: reset_password_def Let_def)
  qed
  show ?thesis
    using a b c by blast
qed

text \<open>
  The claim as written fails for (b): Alice, locked until 50 with five failures, tries a
  wrong password at clock 100; the lockout is cleared and the failure is counted, so the
  attempt ends with \<open>failed_login_attempts\<close> 1.
\<close>

theorem lockout_counters_cleared_counterexample:
  "account_locked_until (alice\<lparr>failed_login_attempts := 5, account_locked_until := Some 50\<rparr>) = Some 50
   \<and> \<not> at_lock_check example_clock < 50
   \<and> authenticate_user default_settings example_hasher example_clock
        [alice\<lparr>failed_login_attempts := 5, account_locked_until := Some 50\<rparr>]
        ''alice@example.com'' ''wrong''
       = ([alice\<lparr>failed_login_attempts := 1, last_failed_login := Some 101\<rparr>], Inr None)
   \<and> failed_login_attempts (alice\<lparr>failed_login_attempts := 1, last_failed_login := Some 101\<rparr>) \<noteq> 0"
  by (simp add: authenticate_user_def select_by_email_def alice_def example_clock_def
      verify_password_def pwd_context_verify_def bcrypt_identify_def bcrypt_idents_def
      starts_with_def example_hasher_def commit_def Let_def MAX_FAILED_ATTEMPTS_def)

text \<open>
  Alice logs in with the right password after four failures; Alice's lockout has run out
  and she tries a wrong password; Alice, locked until 500, resets her password.
\<close>

theorem lockout_counters_cleared_witness:
  "authenticate_user default_settings example_hasher example_clock [alice]
       ''alice@example.com'' ''Alice123!''
     = ([alice\<lparr>failed_login_attempts := 0, last_failed_login := None\<rparr>],
        Inr (Some (alice\<lparr>failed_login_attempts := 0, last_failed_login := None\<rparr>,
          \<lparr> access_token = JWS ''HS256'' (SECRET_KEY default_settings)
                 [''sub'' \<mapsto> JStr ''1'', ''exp'' \<mapsto> JInt 3600, ''iat'' \<mapsto> JInt 0,
                  ''type'' \<mapsto> JStr ''access''],
             refresh_token = JWS ''HS256'' (SECRET_KEY default_settings)
                 [''sub'' \<mapsto> JStr ''1'', ''exp'' \<mapsto> JInt 2592000, ''iat'' \<mapsto> JInt 0,
                  ''type'' \<mapsto> JStr ''refresh''],
             token_type = ''bearer'' \<rparr>)))
   \<and> 0 \<le> failed_login_attempts alice
   \<and> failed_login_attempts (alice\<lparr>failed_login_attempts := 0, last_failed_login := None\<rparr>) = 0
   \<and> account_locked_until (alice\<lparr>failed_login_attempts := 0, last_failed_login := None\<rparr>) = None
   \<and> \<not> at_lock_check example_clock < 50
   \<and> (\<exists>u''. select_by_email
               (fst (authenticate_user default_settings example_hasher example_clock
                       [alice\<lparr>failed_login_attempts := 5, account_locked_until := Some 50\<rparr>]
                       ''alice@example.com'' ''wrong''))
               ''alice@example.com'' = Inr (Some u'')
            \<and> account_locked_until u'' = None \<and> failed_login_attempts u'' = 1)
   \<and> reset_password default_settings example_hasher 0
        [alice\<lparr>failed_login_attempts := 5, account_locked_until := Some 500\<rparr>]
        (JWS ''HS256'' (SECRET_KEY default_settings)
           [''sub'' \<mapsto> JStr ''alice@example.com'', ''exp'' \<mapsto> JInt 3600, ''iat'' \<mapsto> JInt 0,
            ''type'' \<mapsto> JStr ''password_reset''])
        ''Alice456!''
       = ([alice\<lparr>hashed_password := ''$2b$Alice456!'', failed_login_attempts := 0,
                 account_locked_until := None\<rparr>], Inr True)"
proof -
  have pk: "distinct (map user_id [w])" for w :: user
    by simp
  have login: "authenticate_user default_settings example_hasher example_clock [alice]
       ''alice@example.com'' ''Alice123!''
     = ([alice\<lparr>failed_login_attempts := 0, last_failed_login := None\<rparr>],
        Inr (Some (alice\<lparr>failed_login_attempts := 0, last_failed_login := None\<rparr>,
          \<lparr> access_token = JWS ''HS256'' (SECRET_KEY default_settings)
                 [''sub'' \<mapsto> JStr ''1'', ''exp'' \<mapsto> JInt 3600, ''iat'' \<mapsto> JInt 0,
                  ''type'' \<mapsto> JStr ''access''],
             refresh_token = JWS ''HS256'' (SECRET_KEY default_settings)
                 [''sub'' \<mapsto> JStr ''1'', ''exp'' \<mapsto> JInt 2592000, ''iat'' \<mapsto> JInt 0,
                  ''type'' \<mapsto> JStr ''refresh''],
             token_type = ''bearer'' \<rparr>)))"
    using alice_found right_password_for_alice alice_tokens
    by (simp add: authenticate_user_def Let_def example_clock_def)
       (simp add: alice_def commit_def Let_def)
  have count: "0 \<le> failed_login_attempts alice"
    by (simp add: alice_def)
  have expired: "\<not> at_lock_check example_clock < 50"
    by (simp add: example_clock_def)
  have wrong: "is_active (alice\<lparr>failed_login_attempts := 5, account_locked_until := Some 50\<rparr>)
      \<and> verify_password example_hasher ''wrong''
           (hashed_password (alice\<lparr>failed_login_attempts := 5, account_locked_until := Some 50\<rparr>))
          = Inr False"
    using wrong_password_for_alice by (simp add: alice_def)
  have payload: "[''sub'' \<mapsto> JStr ''alice@example.com'', ''exp'' \<mapsto> JInt 3600, ''iat'' \<mapsto> JInt 0,
                  ''type'' \<mapsto> JStr ''password_reset''] ''sub'' = Some (JStr ''alice@example.com'')"
    by simp
  note a = lockout_counters_cleared
      [where d = "[alice]" and u = alice and password = "''Alice123!''", OF alice_found pk,
       THEN conjunct1, rule_format, OF conjI [OF login count]]
  note b = lockout_counters_cleared
      [where u = "alice\<lparr>failed_login_attempts := 5, account_locked_until := Some 50\<rparr>"
         and clk = example_clock and hs = example_hasher and password = "''wrong''"
         and cfg = default_settings and until = 50,
       OF alice_variant_found pk, THEN conjunct2, THEN conjunct1]
  note c = lockout_counters_cleared
      [where u = "alice\<lparr>failed_login_attempts := 5, account_locked_until := Some 500\<rparr>"
         and hs = example_hasher and new_password = "''Alice456!''",
       OF alice_variant_found pk, THEN conjunct2, THEN conjunct2, rule_format,
       OF conjI [OF strong_example_password conjI [OF alice_reset_token conjI [OF payload]]]]
  show ?thesis
    using login count expired wrong a b c
    by (simp add: Let_def commit_def get_password_hash_def example_hasher_def alice_def)
qed

section \<open>Tokens\<close>

text \<open>
  C4, as amended. \<open>verify_token\<close> returns the payload exactly when the token is well formed,
  its signature verifies under the configured secret and algorithm, its registered claims
  pass the library's checks, and its \<open>type\<close> claim is the expected type; in every other case
  it returns the same \<open>None\<close> and it never raises. For a payload as the token constructors
  build it, the library's checks come to: the caller's claims are acceptable and the second
  of verification is not later than \<open>exp\<close>. So a token verifies through the whole second of
  its \<open>exp\<close>, not only before it.
\<close>

theorem verify_token_valid_iff:
  "verify_token cfg now tok expected_type =
     (case tok of
        Malformed _ \<Rightarrow> Inr None
      | JWS alg signing_key cs \<Rightarrow>
          if alg = ALGORITHM cfg \<and> signing_key = SECRET_KEY cfg \<and> validate_claims now cs
             \<and> cs ''type'' = Some (JStr expected_type)
          then Inr (Some cs) else Inr None)
   \<and> validate_claims now (subject(''exp'' \<mapsto> JInt x, ''iat'' \<mapsto> JInt i, ''type'' \<mapsto> t))
        = (subject_claims_ok now subject \<and> timegm now \<le> x)"
  using verify_token_cases [of cfg now tok expected_type]
    validate_claims_issued [of now subject x i t] by simp

text \<open>
  The claim as written asks for the current time to be before \<open>exp\<close>. An access token issued
  at 0 with a lifetime of one second expires at 1000000 microseconds; at 1999999 the clock is
  past that instant, and the token still verifies, since both fall in second 1.
\<close>

theorem verify_token_valid_iff_counterexample:
  "create_access_token default_settings 0 [''sub'' \<mapsto> JStr ''1''] (Some 1000000)
     = Inr (JWS ''HS256'' (SECRET_KEY default_settings)
              [''sub'' \<mapsto> JStr ''1'', ''exp'' \<mapsto> JInt 1, ''iat'' \<mapsto> JInt 0,
               ''type'' \<mapsto> JStr ''access''])
   \<and> \<not> (1999999 :: datetime) < 0 + 1000000
   \<and> verify_token default_settings 1999999
        (JWS ''HS256'' (SECRET_KEY default_settings)
           [''sub'' \<mapsto> JStr ''1'', ''exp'' \<mapsto> JInt 1, ''iat'' \<mapsto> JInt 0,
            ''type'' \<mapsto> JStr ''access''])
        ''access''
       = Inr (Some [''sub'' \<mapsto> JStr ''1'', ''exp'' \<mapsto> JInt 1, ''iat'' \<mapsto> JInt 0,
                    ''type'' \<mapsto> JStr ''access''])"
  by (simp add: create_access_token_def jwt_encode_def hmac_algorithms_def default_settings_def
      delta_or_def timegm_def Let_def verify_token_cases validate_claims_def int_claim_ok_def
      str_claim_ok_def)

text \<open>
  A malformed string, a token in the last second of its life, the same token one second
  later, a token signed with another key, and a token of another type.
\<close>

theorem verify_token_valid_iff_witness:
  "verify_token default_settings 0 (Malformed ''not.a.token'') ''access'' = Inr None
   \<and> verify_token default_settings 3600999999
        (JWS ''HS256'' (SECRET_KEY default_settings)
           [''sub'' \<mapsto> JStr ''1'', ''exp'' \<mapsto> JInt 3600, ''iat'' \<mapsto> JInt 0,
            ''type'' \<mapsto> JStr ''access''])
        ''access''
       = Inr (Some [''sub'' \<mapsto> JStr ''1'', ''exp'' \<mapsto> JInt 3600, ''iat'' \<mapsto> JInt 0,
                    ''type'' \<mapsto> JStr ''access''])
   \<and> verify_token default_settings 3601000000
        (JWS ''HS256'' (SECRET_KEY default_settings)
           [''sub'' \<mapsto> JStr ''1'', ''exp'' \<mapsto> JInt 3600, ''iat'' \<mapsto> JInt 0,
            ''type'' \<mapsto> JStr ''access''])
        ''access'' = Inr None
   \<and> verify_token default_settings 0
        (JWS ''HS256'' ''another key''
           [''sub'' \<mapsto> JStr ''1'', ''exp'' \<mapsto> JInt 3600, ''iat'' \<mapsto> JInt 0,
            ''type'' \<mapsto> JStr ''access''])
        ''access'' = Inr None
   \<and> verify_token default_settings 0
        (JWS ''HS256'' (SECRET_KEY default_settings)
           [''sub'' \<mapsto> JStr ''1'', ''exp'' \<mapsto> JInt 3600, ''iat'' \<mapsto> JInt 0,
            ''type'' \<mapsto> JStr ''access''])
        ''refresh'' = Inr None"
proof -
  let ?cs = "[''sub'' \<mapsto> JStr ''1'', ''exp'' \<mapsto> JInt 3600, ''iat'' \<mapsto> JInt 0,
              ''type'' \<mapsto> JStr ''access'']"
  have ok: "subject_claims_ok now [''sub'' \<mapsto> JStr ''1'']" for now
    by (rule email_subject_ok)
  have key: "''another key'' \<noteq> SECRET_KEY default_settings"
    by (simp add: default_settings_def)
  have alg: "ALGORITHM default_settings = ''HS256''"
    by (simp add: default_settings_def)
  have t: "timegm 3600999999 = 3600" "timegm 3601000000 = 3601" "timegm 0 = 0"
    by (simp_all add: timegm_def)
  note v = verify_token_valid_iff [where cfg = default_settings and subject = "[''sub'' \<mapsto> JStr ''1'']"
      and x = 3600 and i = 0 and t = "JStr ''access''"]
  show ?thesis
    using ok key alg t
      v [where tok = "Malformed ''not.a.token''" and now = 0 and expected_type = "''access''"]
      v [where tok = "JWS ''HS256'' (SECRET_KEY default_settings) ?cs" and now = 3600999999
           and expected_type = "''access''"]
      v [where tok = "JWS ''HS256'' (SECRET_KEY default_settings) ?cs" and now = 3601000000
           and expected_type = "''access''"]
      v [where tok = "JWS ''HS256'' ''another key'' ?cs" and now = 0 and expected_type = "''access''"]
      v [where tok = "JWS ''HS256'' (SECRET_KEY default_settings) ?cs" and now = 0
           and expected_type = "''refresh''"]
    by simp
qed

text \<open>
  C5, as amended. With an HMAC algorithm configured and caller-supplied claims that the
  library accepts (\<open>subject_claims_ok\<close>), each of the four constructors returns a token; up
  to and including the second of its \<open>exp\<close>, verifying it against its own type returns the
  caller's claims overridden by \<open>exp\<close>, \<open>iat\<close> and \<open>type\<close> (for the two e-mail tokens the only
  caller-supplied claim is \<open>sub\<close>, the address); and verifying it against any other type
  returns \<open>None\<close>, expired or not.
\<close>

theorem token_roundtrip:
  assumes alg: "ALGORITHM cfg \<in> set hmac_algorithms"
    and ok: "subject_claims_ok now subject"
  shows "(\<exists>tok. create_access_token cfg issued subject expires_delta = Inr tok
           \<and> (let x = timegm (issued + delta_or expires_delta
                                   (timedelta_minutes (ACCESS_TOKEN_EXPIRE_MINUTES cfg)))
              in (timegm now \<le> x \<longrightarrow>
                    verify_token cfg now tok ''access''
                      = Inr (Some (subject(''exp'' \<mapsto> JInt x, ''iat'' \<mapsto> JInt (timegm issued),
                                           ''type'' \<mapsto> JStr ''access'')))))
           \<and> (\<forall>U. U \<noteq> ''access'' \<longrightarrow> verify_token cfg now tok U = Inr None))
       \<and> (\<exists>tok. create_refresh_token cfg issued subject expires_delta = Inr tok
           \<and> (let x = timegm (issued + delta_or expires_delta
                                   (timedelta_days (REFRESH_TOKEN_EXPIRE_DAYS cfg)))
              in (timegm now \<le> x \<longrightarrow>
                    verify_token cfg now tok ''refresh''
                      = Inr (Some (subject(''exp'' \<mapsto> JInt x, ''iat'' \<mapsto> JInt (timegm issued),
                                           ''type'' \<mapsto> JStr ''refresh'')))))
           \<and> (\<forall>U. U \<noteq> ''refresh'' \<longrightarrow> verify_token cfg now tok U = Inr None))
       \<and> (\<exists>tok. create_email_verification_token cfg issued addr = Inr tok
           \<and> (let x = timegm (issued + timedelta_hours (EMAIL_VERIFICATION_EXPIRE_HOURS cfg))
              in (timegm now \<le> x \<longrightarrow>
                    verify_token cfg now tok ''email_verification''
                      = Inr (Some [''sub'' \<mapsto> JStr addr, ''exp'' \<mapsto> JInt x,
                                   ''iat'' \<mapsto> JInt (timegm issued),
                                   ''type'' \<mapsto> JStr ''email_verification''])))
           \<and> (\<forall>U. U \<noteq> ''email_verification'' \<longrightarrow> verify_token cfg now tok U = Inr None))
       \<and> (\<exists>tok. create_password_reset_token cfg issued addr = Inr tok
           \<and> (let x = timegm (issued + timedelta_hours (PASSWORD_RESET_EXPIRE_HOURS cfg))
              in (timegm now \<le> x \<longrightarrow>
                    verify_token cfg now tok ''password_reset''
                      = Inr (Some [''sub'' \<mapsto> JStr addr, ''exp'' \<mapsto> JInt x,
                                   ''iat'' \<mapsto> JInt (timegm issued),
                                   ''type'' \<mapsto> JStr ''password_reset''])))
           \<and> (\<forall>U. U \<noteq> ''password_reset'' \<longrightarrow> verify_token cfg now tok U = Inr None))"
proof -
  note rt = issued_roundtrip [OF alg]
  have access: "\<exists>tok. create_access_token cfg issued subject expires_delta = Inr tok
           \<and> (let x = timegm (issued + delta_or expires_delta
                                   (timedelta_minutes (ACCESS_TOKEN_EXPIRE_MINUTES cfg)))
              in (timegm now \<le> x \<longrightarrow>
                    verify_token cfg now tok ''access''
                      = Inr (Some (subject(''exp'' \<mapsto> JInt x, ''iat'' \<mapsto> JInt (timegm issued),
                                           ''type'' \<mapsto> JStr ''access'')))))
           \<and> (\<forall>U. U \<noteq> ''access'' \<longrightarrow> verify_token cfg now tok U = Inr None)"
    using rt ok by (simp add: create_access_token_def Let_def)
  have refresh: "\<exists>tok. create_refresh_token cfg issued subject expires_delta = Inr tok
           \<and> (let x = timegm (issued + delta_or expires_delta
                                   (timedelta_days (REFRESH_TOKEN_EXPIRE_DAYS cfg)))
              in (timegm now \<le> x \<longrightarrow>
                    verify_token cfg now tok ''refresh''
                      = Inr (Some (subject(''exp'' \<mapsto> JInt x, ''iat'' \<mapsto> JInt (timegm issued),
                                           ''type'' \<mapsto> JStr ''refresh'')))))
           \<and> (\<forall>U. U \<noteq> ''refresh'' \<longrightarrow> verify_token cfg now tok U = Inr None)"
    using rt ok by (simp add: create_refresh_token_def Let_def)
  have mail: "\<exists>tok. create_email_verification_token cfg issued addr = Inr tok
           \<and> (let x = timegm (issued + timedelta_hours (EMAIL_VERIFICATION_EXPIRE_HOURS cfg))
              in (timegm now \<le> x \<longrightarrow>
                    verify_token cfg now tok ''email_verification''
                      = Inr (Some [''sub'' \<mapsto> JStr addr, ''exp'' \<mapsto> JInt x,
                                   ''iat'' \<mapsto> JInt (timegm issued),
                                   ''type'' \<mapsto> JStr ''email_verification''])))
           \<and> (\<forall>U. U \<noteq> ''email_verification'' \<longrightarrow> verify_token cfg now tok U = Inr None)"
    using rt [where subject = "[''sub'' \<mapsto> JStr addr]"] email_subject_ok [of now addr]
    by (simp add: create_email_verification_token_def Let_def)
  have reset: "\<exists>tok. create_password_reset_token cfg issued addr = Inr tok
           \<and> (let x = timegm (issued + timedelta_hours (PASSWORD_RESET_EXPIRE_HOURS cfg))
              in (timegm now \<le> x \<longrightarrow>
                    verify_token cfg now tok ''password_reset''
                      = Inr (Some [''sub'' \<mapsto> JStr addr, ''exp'' \<mapsto> JInt x,
                                   ''iat'' \<mapsto> JInt (timegm issued),
                                   ''type'' \<mapsto> JStr ''password_reset''])))
           \<and> (\<forall>U. U \<noteq> ''password_reset'' \<longrightarrow> verify_token cfg now tok U = Inr None)"
    using rt [where subject = "[''sub'' \<mapsto> JStr addr]"] email_subject_ok [of now addr]
    by (simp add: create_password_reset_token_def Let_def)
  show ?thesis
    using access refresh mail reset by (intro conjI)
qed

text \<open>
  The claim as written quantifies over every dictionary of claims. With the integer 5 as
  \<open>sub\<close> the access token is issued, is not expired, and does not verify: the library wants
  a string as subject.
\<close>

theorem token_roundtrip_counterexample:
  "create_access_token default_settings 0 [''sub'' \<mapsto> JInt 5] None
     = Inr (JWS ''HS256'' (SECRET_KEY default_settings)
              [''sub'' \<mapsto> JInt 5, ''exp'' \<mapsto> JInt 3600, ''iat'' \<mapsto> JInt 0,
               ''type'' \<mapsto> JStr ''access''])
   \<and> timegm 0 < 3600
   \<and> verify_token default_settings 0
        (JWS ''HS256'' (SECRET_KEY default_settings)
           [''sub'' \<mapsto> JInt 5, ''exp'' \<mapsto> JInt 3600, ''iat'' \<mapsto> JInt 0,
            ''type'' \<mapsto> JStr ''access''])
        ''access'' = Inr None"
  by (simp add: create_access_token_def jwt_encode_def hmac_algorithms_def default_settings_def
      delta_or_def timedelta_minutes_def timegm_def Let_def verify_token_cases validate_claims_def
      int_claim_ok_def str_claim_ok_def)

text \<open>
  The access token of user 1, issued at 0 under the default configuration, verified in the
  last second of its hour, against its own type and against \<open>password_reset\<close>.
\<close>

theorem token_roundtrip_witness:
  "ALGORITHM default_settings \<in> set hmac_algorithms
   \<and> subject_claims_ok 3600999999 [''sub'' \<mapsto> JStr ''1'']
   \<and> create_access_token default_settings 0 [''sub'' \<mapsto> JStr ''1''] None
       = Inr (JWS ''HS256'' (SECRET_KEY default_settings)
                [''sub'' \<mapsto> JStr ''1'', ''exp'' \<mapsto> JInt 3600, ''iat'' \<mapsto> JInt 0,
                 ''type'' \<mapsto> JStr ''access''])
   \<and> timegm 3600999999 \<le> timegm (0 + delta_or None (timedelta_minutes 60))
   \<and> verify_token default_settings 3600999999
        (JWS ''HS256'' (SECRET_KEY default_settings)
           [''sub'' \<mapsto> JStr ''1'', ''exp'' \<mapsto> JInt 3600, ''iat'' \<mapsto> JInt 0,
            ''type'' \<mapsto> JStr ''access''])
        ''access''
       = Inr (Some [''sub'' \<mapsto> JStr ''1'', ''exp'' \<mapsto> JInt 3600, ''iat'' \<mapsto> JInt 0,
                    ''type'' \<mapsto> JStr ''access''])
   \<and> verify_token default_settings 3600999999
        (JWS ''HS256'' (SECRET_KEY default_settings)
           [''sub'' \<mapsto> JStr ''1'', ''exp'' \<mapsto> JInt 3600, ''iat'' \<mapsto> JInt 0,
            ''type'' \<mapsto> JStr ''access''])
        ''password_reset'' = Inr None"
proof -
  have alg: "ALGORITHM default_settings \<in> set hmac_algorithms"
    by (simp add: default_settings_def hmac_algorithms_def)
  have ok: "subject_claims_ok 3600999999 [''sub'' \<mapsto> JStr ''1'']"
    by (rule email_subject_ok)
  have made: "create_access_token default_settings 0 [''sub'' \<mapsto> JStr ''1''] None
       = Inr (JWS ''HS256'' (SECRET_KEY default_settings)
                [''sub'' \<mapsto> JStr ''1'', ''exp'' \<mapsto> JInt 3600, ''iat'' \<mapsto> JInt 0,
                 ''type'' \<mapsto> JStr ''access''])"
    by (simp add: create_access_token_def jwt_encode_def hmac_algorithms_def default_settings_def
        delta_or_def timedelta_minutes_def timegm_def Let_def)
  have live: "timegm 3600999999 \<le> timegm (0 + delta_or None (timedelta_minutes 60))"
    by (simp add: timegm_def delta_or_def timedelta_minutes_def)
  have mins: "ACCESS_TOKEN_EXPIRE_MINUTES default_settings = 60"
    by (simp add: default_settings_def)
  have other: "''password_reset'' \<noteq> ''access''"
    by simp
  show ?thesis
    using alg ok made live mins other
      token_roundtrip [OF alg ok, of 0 None, THEN conjunct1]
    by (auto simp: Let_def timegm_def delta_or_def timedelta_minutes_def)
qed

section \<open>Password reset and token refresh\<close>

lemma weak_example_password:
  "validate_password_strength default_settings ''weak''
     = (False, ''Password must be at least 8 characters long'')"
  by (simp add: validate_password_strength_def default_settings_def msg_length_def
      str_int_def str_nat.simps digit_char_def)

lemma strong_example_password_valid:
  "validate_password_strength default_settings ''Alice456!'' = (True, [])"
  by (simp add: validate_password_strength_def default_settings_def
      search_class_def upper_class_def lower_class_def digit_class_def special_class_def)

text \<open>
  C9. \<open>reset_password\<close> validates the new password first: with a password that fails the
  policy it raises \<open>ValueError\<close> with the policy's reason for every token, the table untouched.
  With a password that passes and a token that is signed with the configured secret and
  algorithm and passes the library's checks, but whose \<open>type\<close> is not \<open>password_reset\<close>, it
  returns \<open>False\<close> and the table is the one it was given: no row is modified.
\<close>

theorem reset_password_wrong_type:
  "(\<not> fst (validate_password_strength cfg new_password) \<longrightarrow>
      (\<forall>tok'. reset_password cfg hs now d tok' new_password
                = (d, Inl (ValueError (snd (validate_password_strength cfg new_password))))))
   \<and> (fst (validate_password_strength cfg new_password)
        \<and> tok = JWS (ALGORITHM cfg) (SECRET_KEY cfg) payload \<and> validate_claims now payload
        \<and> payload ''type'' \<noteq> Some (JStr ''password_reset'') \<longrightarrow>
      reset_password cfg hs now d tok new_password = (d, Inr False))"
  by (simp add: reset_password_def is_strong_password_cases verify_token_cases)

text \<open>
  A weak password with any token, and a strong password with Alice's unexpired
  e-mail verification token.
\<close>

theorem reset_password_wrong_type_witness:
  "\<not> fst (validate_password_strength default_settings ''weak'')
   \<and> (\<forall>tok'. reset_password default_settings example_hasher 0 [alice] tok' ''weak''
               = ([alice], Inl (ValueError ''Password must be at least 8 characters long'')))
   \<and> fst (validate_password_strength default_settings ''Alice456!'')
   \<and> create_email_verification_token default_settings 0 ''alice@example.com''
       = Inr (JWS ''HS256'' (SECRET_KEY default_settings)
                [''sub'' \<mapsto> JStr ''alice@example.com'', ''exp'' \<mapsto> JInt 86400, ''iat'' \<mapsto> JInt 0,
                 ''type'' \<mapsto> JStr ''email_verification''])
   \<and> validate_claims 0
        [''sub'' \<mapsto> JStr ''alice@example.com'', ''exp'' \<mapsto> JInt 86400, ''iat'' \<mapsto> JInt 0,
         ''type'' \<mapsto> JStr ''email_verification'']
   \<and> reset_password default_settings example_hasher 0 [alice]
        (JWS ''HS256'' (SECRET_KEY default_settings)
           [''sub'' \<mapsto> JStr ''alice@example.com'', ''exp'' \<mapsto> JInt 86400, ''iat'' \<mapsto> JInt 0,
            ''type'' \<mapsto> JStr ''email_verification''])
        ''Alice456!''
       = ([alice], Inr False)"
proof -
  let ?cs = "[''sub'' \<mapsto> JStr ''alice@example.com'', ''exp'' \<mapsto> JInt 86400, ''iat'' \<mapsto> JInt 0,
              ''type'' \<mapsto> JStr ''email_verification'']"
  have made: "create_email_verification_token default_settings 0 ''alice@example.com''
       = Inr (JWS ''HS256'' (SECRET_KEY default_settings) ?cs)"
    by (simp add: create_email_verification_token_def jwt_encode_def hmac_algorithms_def
        default_settings_def timedelta_hours_def timegm_def Let_def)
  have valid: "validate_claims 0 ?cs"
    by (simp add: validate_claims_def int_claim_ok_def str_claim_ok_def timegm_def)
  have alg: "ALGORITHM default_settings = ''HS256''"
    by (simp add: default_settings_def)
  have type: "?cs ''type'' \<noteq> Some (JStr ''password_reset'')"
    by simp
  note w = reset_password_wrong_type [where cfg = default_settings and hs = example_hasher
      and now = 0 and d = "[alice]"]
  show ?thesis
    using made valid alg type weak_example_password strong_example_password_valid
      w [where new_password = "''weak''", THEN conjunct1]
      w [where new_password = "''Alice456!''" and payload = ?cs
           and tok = "JWS ''HS256'' (SECRET_KEY default_settings) ?cs", THEN conjunct2]
    by simp
qed

text \<open>
  C10. For a token of type \<open>refresh\<close> that is signed, passes the library's checks and carries
  as \<open>sub\<close> a non-empty string that \<open>int()\<close> rejects, \<open>refresh_access_token\<close> raises that
  \<open>ValueError\<close> and leaves the table untouched. It returns \<open>None\<close> exactly when verification
  fails, or \<open>sub\<close> is missing or falsy (the empty string), or \<open>sub\<close> converts to an integer
  that is the key of no row or of an inactive user.
\<close>

theorem refresh_access_token_unguarded_int:
  "(tok = JWS (ALGORITHM cfg) (SECRET_KEY cfg) payload \<and> validate_claims now payload
      \<and> payload ''type'' = Some (JStr ''refresh'')
      \<and> payload ''sub'' = Some (JStr s) \<and> s \<noteq> [] \<and> int_of_str s = Inl err \<longrightarrow>
      refresh_access_token cfg now now_access now_refresh d tok = (d, Inl err)
        \<and> err = ValueError ''invalid literal for int() with base 10'')
   \<and> (snd (refresh_access_token cfg now now_access now_refresh d tok) = Inr None) =
       (verify_token cfg now tok ''refresh'' = Inr None
        \<or> (\<exists>payload. verify_token cfg now tok ''refresh'' = Inr (Some payload)
              \<and> (payload ''sub'' = None
                  \<or> (\<exists>uid. payload ''sub'' = Some uid
                        \<and> (\<not> truthy uid
                            \<or> (truthy uid \<and>
                                (\<exists>n. int_of_jval uid = Inr n
                                   \<and> (select_by_id d n = Inr None
                                       \<or> (\<exists>u. select_by_id d n = Inr (Some u) \<and> \<not> is_active u)))))))))"
proof -
  have raises: "refresh_access_token cfg now now_access now_refresh d tok = (d, Inl err)
        \<and> err = ValueError ''invalid literal for int() with base 10''"
    if "tok = JWS (ALGORITHM cfg) (SECRET_KEY cfg) payload" and "validate_claims now payload"
      and "payload ''type'' = Some (JStr ''refresh'')"
      and "payload ''sub'' = Some (JStr s)" and "s \<noteq> []" and "int_of_str s = Inl err"
  proof -
    have "payload \<noteq> Map.empty"
      using that(3) by auto
    then show ?thesis
      using that int_of_str_error [OF that(6)]
      by (simp add: refresh_access_token_def verify_token_cases int_literal_error_def)
  qed
  have none: "(snd (refresh_access_token cfg now now_access now_refresh d tok) = Inr None) =
       (verify_token cfg now tok ''refresh'' = Inr None
        \<or> (\<exists>payload. verify_token cfg now tok ''refresh'' = Inr (Some payload)
              \<and> (payload ''sub'' = None
                  \<or> (\<exists>uid. payload ''sub'' = Some uid
                        \<and> (\<not> truthy uid
                            \<or> (truthy uid \<and>
                                (\<exists>n. int_of_jval uid = Inr n
                                   \<and> (select_by_id d n = Inr None
                                       \<or> (\<exists>u. select_by_id d n = Inr (Some u) \<and> \<not> is_active u)))))))))"
    by (auto simp: refresh_access_token_def split: sum.splits option.splits if_splits)
  show ?thesis
    using raises none by blast
qed

lemma int_of_str_abc: "int_of_str ''abc'' = Inl (ValueError ''invalid literal for int() with base 10'')"
  by (simp add: int_of_str_def strip_def is_space_def is_digit_def int_literal_error_def Let_def)

text \<open>A signed refresh token whose subject is \<open>abc\<close>, and a malformed token.\<close>

theorem refresh_access_token_unguarded_int_witness:
  "validate_claims 0 [''sub'' \<mapsto> JStr ''abc'', ''exp'' \<mapsto> JInt 3600, ''iat'' \<mapsto> JInt 0,
                      ''type'' \<mapsto> JStr ''refresh'']
   \<and> int_of_str ''abc'' = Inl (ValueError ''invalid literal for int() with base 10'')
   \<and> refresh_access_token default_settings 0 1 2 [alice]
        (JWS ''HS256'' (SECRET_KEY default_settings)
           [''sub'' \<mapsto> JStr ''abc'', ''exp'' \<mapsto> JInt 3600, ''iat'' \<mapsto> JInt 0,
            ''type'' \<mapsto> JStr ''refresh''])
       = ([alice], Inl (ValueError ''invalid literal for int() with base 10''))
   \<and> snd (refresh_access_token default_settings 0 1 2 [alice] (Malformed ''x'')) = Inr None"
proof -
  let ?cs = "[''sub'' \<mapsto> JStr ''abc'', ''exp'' \<mapsto> JInt 3600, ''iat'' \<mapsto> JInt 0,
              ''type'' \<mapsto> JStr ''refresh'']"
  have valid: "validate_claims 0 ?cs"
    by (simp add: validate_claims_def int_claim_ok_def str_claim_ok_def timegm_def)
  have alg: "ALGORITHM default_settings = ''HS256''"
    by (simp add: default_settings_def)
  have bad: "verify_token default_settings 0 (Malformed ''x'') ''refresh'' = Inr None"
    by (simp add: verify_token_cases)
  note w = refresh_access_token_unguarded_int [where cfg = default_settings and now = 0
      and now_access = 1 and now_refresh = 2 and d = "[alice]"]
  show ?thesis
    using valid alg bad int_of_str_abc
      w [where tok = "JWS ''HS256'' (SECRET_KEY default_settings) ?cs" and payload = ?cs
           and s = "''abc''" and err = "ValueError ''invalid literal for int() with base 10''",
         THEN conjunct1]
      w [where tok = "Malformed ''x''", THEN conjunct2]
    by simp
qed

section \<open>Credential hasher\<close>

text \<open>
  C8. On a digest that bcrypt does not claim, \<open>verify_password\<close> does not return \<open>False\<close>: it
  hands the digest to \<open>pwd_context.verify\<close> with no \<open>try\<close> around the call, and the
  \<open>UnknownHashError\<close> of the library leaves the function, whatever the bcrypt handler is.
\<close>

theorem verify_password_unknown_hash:
  "verify_password hs ''Alice123!'' ''not-a-bcrypt-digest'' = Inl UnknownHashError"
  by (simp add: verify_password_def pwd_context_verify_def bcrypt_identify_def bcrypt_idents_def
      starts_with_def)

section \<open>Registration\<close>

text \<open>
  C7. The \<open>register\<close> handler, given an e-mail address and a username that are not blank, a
  password that passes the policy, and a table with no row for the normalized address:
  afterwards the table holds exactly one row for \<open>lower(strip(email))\<close>, with that address as
  its \<open>email\<close>, \<open>is_verified\<close> false, \<open>is_active\<close> true, the stripped username and the digest of
  the password. This holds whatever the hasher does in the login that follows.
\<close>

theorem register_persists_normalized_email:
  assumes given: "email' \<noteq> []" "username' \<noteq> []" "password \<noteq> []"
    and not_blank: "strip email' \<noteq> []" "strip username' \<noteq> []"
    and strong: "fst (validate_password_strength cfg password)"
    and fresh: "select_by_email d (lower (strip email')) = Inr None"
  shows "\<exists>u. select_by_email (fst (register cfg hs now_mail clk d email' username' password))
                (lower (strip email')) = Inr (Some u)
             \<and> email u = lower (strip email')
             \<and> is_verified u = False \<and> is_active u = True
             \<and> username u = strip username'
             \<and> hashed_password u = get_password_hash hs password"
proof -
  let ?e = "lower (strip email')"
  let ?u0 = "\<lparr> user_id = next_id d, email = ?e, username = strip username',
               hashed_password = get_password_hash hs password,
               is_verified = False, is_active = True, failed_login_attempts = 0,
               last_failed_login = None, account_locked_until = None \<rparr>"
  have no_row: "\<not> list_ex (\<lambda>r. email r = ?e) d"
    using fresh by (simp add: select_by_email_def scalar_one_or_none_None list_ex_iff filter_empty_conv)
  have reg: "register_user cfg hs d ?e (strip username') password = (d @ [?u0], Inr (Some ?u0))"
    using strong no_row
    by (simp add: register_user_def is_strong_password_cases add_and_commit_def Let_def)
  have sel: "select_by_email (d @ [u]) ?e = Inr (Some u)" if "email u = ?e" for u
    using select_by_email_append [OF fresh that] .
  show ?thesis
    using given not_blank reg sel
    by (auto simp: register_def authenticate_user_def Let_def commit_append_fresh
        MAX_FAILED_ATTEMPTS_def
        split: sum.splits option.splits bool.splits prod.splits)
qed

lemma example_normalized: "lower (strip ''  Bob@Example.COM '') = ''bob@example.com''"
  by code_simp

lemma example_username: "strip '' bob '' = ''bob''"
  by code_simp

lemma example_registration_password:
  "validate_password_strength default_settings ''Bob12345!'' = (True, [])"
  by (simp add: validate_password_strength_def default_settings_def
      search_class_def upper_class_def lower_class_def digit_class_def special_class_def)

text \<open>Bob registers with a padded, mixed-case address next to Alice.\<close>

theorem register_persists_normalized_email_witness:
  "lower (strip ''  Bob@Example.COM '') = ''bob@example.com''
   \<and> strip '' bob '' = ''bob''
   \<and> fst (validate_password_strength default_settings ''Bob12345!'')
   \<and> select_by_email [alice] ''bob@example.com'' = Inr None
   \<and> (\<exists>u. select_by_email
              (fst (register default_settings example_hasher 0 example_clock [alice]
                      ''  Bob@Example.COM '' '' bob '' ''Bob12345!''))
              ''bob@example.com'' = Inr (Some u)
          \<and> email u = ''bob@example.com'' \<and> is_verified u = False \<and> is_active u = True
          \<and> username u = ''bob'' \<and> hashed_password u = ''$2b$Bob12345!'')"
proof -
  have fresh: "select_by_email [alice] (lower (strip ''  Bob@Example.COM '')) = Inr None"
    by (simp add: example_normalized select_by_email_def alice_def)
  have strong: "fst (validate_password_strength default_settings ''Bob12345!'')"
    by (simp add: example_registration_password)
  have blank: "strip ''  Bob@Example.COM '' \<noteq> []" "strip '' bob '' \<noteq> []"
    by code_simp+
  have given: "''  Bob@Example.COM '' \<noteq> []" "'' bob '' \<noteq> []" "''Bob12345!'' \<noteq> []"
    by simp_all
  show ?thesis
    using fresh strong example_normalized example_username
      register_persists_normalized_email [OF given blank strong fresh,
        of example_hasher 0 example_clock]
    by (simp add: get_password_hash_def example_hasher_def)
qed

end
